theory Spec2Isabelle
  imports Main
begin

section \<open>Bunny REST Proxy: lifecycle coordinator, publisher construction and routes\<close>

text \<open>
  The development embeds three source files: \<^verbatim>\<open>src/lifecycle.ts\<close> (in-flight
  accounting, graceful shutdown, the AMQP close handlers),
  \<^verbatim>\<open>src/publisher/build-publisher.ts\<close> (publisher construction and the publish
  route) and \<^verbatim>\<open>src/server.ts\<close> (the application object, its flags, its
  content type parser and its hooks).

  The program runs on a single-threaded event loop and acts on the world through calls
  into objects it does not define (the logger, the AMQP connection, the subscribers, the
  HTTP framework). Each such call is recorded, in program order, as an \<open>event\<close> of the
  application's \<open>trace\<close>; the mutable fields of the application object are fields of a
  record that every operation takes and returns.
\<close>

subsection \<open>Data\<close>

text \<open>
  The three logger methods used by the sources, and the messages they are called with.
  Each constructor of \<open>message\<close> stands for one literal of the sources:
  \<^item> \<open>CancellingAllSubscribers\<close>: \<^verbatim>\<open>'Cancelling all subscribers'\<close>;
  \<^item> \<open>CheckingSubscribers\<close>: \<^verbatim>\<open>'Checking for subscribers with un-processed messages'\<close>;
  \<^item> \<open>NoDeliveriesInFlight\<close>: \<^verbatim>\<open>'No subscriber messages delivered via in-flight requests detected. Closing the AMQP connection.'\<close>;
  \<^item> \<open>DeliveriesInFlight d r\<close>: the template
    \<^verbatim>\<open>`Some subscribers are pushing messages that are still in-flight (${deliveriesInFlight}). Waiting 1s for retry #${retries}`\<close>
    with its two interpolated numbers;
  \<^item> \<open>MaximumRetriesExceeded\<close>: \<^verbatim>\<open>'Maximum number of retries exceeded. Forcefully closing the connection.'\<close>;
  \<^item> \<open>ConnectionWasClosed\<close>: \<^verbatim>\<open>'AMQP connection was closed.'\<close>;
  \<^item> \<open>ConnectionClosedUnexpectedly\<close>: \<^verbatim>\<open>'AMQP connection was closed unexpectedly. BRP is shutting down'\<close>;
  \<^item> \<open>ChannelWasClosed c\<close>: the template \<^verbatim>\<open>`AMQP ${isConfirmChannel ? 'confirm ' : ''}channel was closed.`\<close>;
  \<^item> \<open>ChannelClosedUnexpectedly\<close>: \<^verbatim>\<open>'AMQP channel was closed unexpectedly. BRP is shutting down'\<close>;
  \<^item> \<open>StartingGracefulShutdown\<close>: \<^verbatim>\<open>'Starting graceful shutdown sequence.'\<close>.
\<close>

datatype level = Info | Warn | Fatal

datatype message =
    CancellingAllSubscribers
  | CheckingSubscribers
  | NoDeliveriesInFlight
  | DeliveriesInFlight int nat
  | MaximumRetriesExceeded
  | ConnectionWasClosed
  | ConnectionClosedUnexpectedly
  | ChannelWasClosed bool
  | ChannelClosedUnexpectedly
  | StartingGracefulShutdown

text \<open>
  The calls the coordinator makes into the world:
  \<^item> \<open>Log l m\<close>: \<^verbatim>\<open>app.log.info\<close>, \<^verbatim>\<open>app.log.warn\<close>, \<^verbatim>\<open>app.log.fatal\<close>;
  \<^item> \<open>SubscriberStop i hard\<close>: \<^verbatim>\<open>s.stop(hard)\<close> on the subscriber at index \<open>i\<close> of
    \<^verbatim>\<open>app.subscribers\<close>;
  \<^item> \<open>Sleep ms\<close>: \<^verbatim>\<open>await sleep(ms)\<close>;
  \<^item> \<open>ConnectionClose\<close>: \<^verbatim>\<open>app.amqp.connection.close()\<close>;
  \<^item> \<open>AppClose\<close>: \<^verbatim>\<open>app.close()\<close>.
\<close>

datatype event =
    Log level message
  | SubscriberStop nat bool
  | Sleep nat
  | ConnectionClose
  | AppClose

text \<open>
  The two AMQP channels the connection plugin exposes
  (\<^verbatim>\<open>useConfirmChannel: true, useRegularChannel: true\<close>), and the handle
  \<^verbatim>\<open>app.amqp\<close> through which the program reaches them.
\<close>

datatype channel = RegularChannel | ConfirmChannel

record Amqp =
  amqp_channel :: channel
  amqp_confirmChannel :: channel

text \<open>
  \<^verbatim>\<open>PublisherContentTypes\<close> and \<^verbatim>\<open>PublisherConfig\<close> (declared in
  \<^verbatim>\<open>config/yaml-config.types\<close>; the fields are those \<open>buildPublisher\<close> reads and the
  test configuration writes). A JSON schema is opaque here: a string.
\<close>

datatype PublisherContentTypes = BINARY | JSON

record PublisherConfig =
  queueName :: string
  contentType :: PublisherContentTypes
  schema :: "string option"
  confirm :: bool
  identities :: "string list"

text \<open>
  The two message parser classes; \<open>JSONMessageParser\<close> keeps the schema it was constructed
  with.
\<close>

datatype MessageParser = BinaryMessageParser | JSONMessageParser "string option"

text \<open>
  A \<open>Publisher\<close> object: the four constructor arguments of
  \<^verbatim>\<open>new Publisher(config.queueName, channel, messageParser, config.identities)\<close> and the
  counter \<^verbatim>\<open>messagesInFlight\<close> that \<open>totalMessagesInFlight\<close> reads. JavaScript numbers
  that count are integers here.
\<close>

record Publisher =
  pub_queueName :: string
  channel :: channel
  messageParser :: MessageParser
  pub_identities :: "string list"
  messagesInFlight :: int

text \<open>A \<open>Subscriber\<close> object, as far as the coordinator reads it.\<close>

record Subscriber =
  inFlightPushRequests :: int

text \<open>
  What a route finds in \<^verbatim>\<open>req.body\<close>: the raw bytes (\<open>Buffer\<close>), a string (\<open>Text\<close>),
  a parsed JavaScript value (\<open>Object\<close>, kept as its source text), or \<^verbatim>\<open>null\<close> when the
  framework did not parse a body at all.
\<close>

datatype body = Buffer string | Text string | Object string | Null

text \<open>
  Modelled from the spec: the error kinds of the program and the HTTP status each is
  answered with (section 7; the classes that carry them are not among the sources).
\<close>

datatype error =
    UNSUPPORTED_CONTENT_TYPE
  | INVALID_PAYLOAD
  | FORBIDDEN
  | UNKNOWN_QUEUE
  | EMPTY
  | BROKER_REJECTED
  | SHUTTING_DOWN
  | INTERNAL

fun status_of :: "error \<Rightarrow> nat" where
  "status_of UNSUPPORTED_CONTENT_TYPE = 415"
| "status_of INVALID_PAYLOAD = 400"
| "status_of FORBIDDEN = 403"
| "status_of UNKNOWN_QUEUE = 404"
| "status_of EMPTY = 423"
| "status_of BROKER_REJECTED = 502"
| "status_of SHUTTING_DOWN = 503"
| "status_of INTERNAL = 500"

text \<open>
  A content type parser as registered with \<^verbatim>\<open>addContentTypeParser\<close>: the option
  \<^verbatim>\<open>parseAs\<close> says in which shape the framework collects the payload before it calls
  the parser function, and the function's \<^verbatim>\<open>done(err, body)\<close> is its result.
\<close>

datatype parse_as = AsBuffer | AsString

record ContentTypeParser =
  parseAs :: parse_as
  parserFn :: "body \<Rightarrow> error + body"

text \<open>An identity of the YAML configuration, and the guard built for one publisher.\<close>

record IdentityConfig =
  name :: string
  token :: string

record IdentityGuard =
  guarded :: Publisher
  known :: "IdentityConfig list"

text \<open>
  A registered route: \<open>Hello\<close> is the handler of \<^verbatim>\<open>GET /\<close>, \<open>Publish p g\<close> the
  closure registered by \<open>registerPublishers\<close>, which captures the publisher and its guard.
\<close>

datatype handler = Hello | Publish Publisher IdentityGuard

record route =
  route_method :: string
  route_url :: string
  handler :: handler

text \<open>
  The application object: the decorations of \<open>buildApp\<close> that the embedded sources read
  or write, the framework's table of content type parsers and of routes, the AMQP handle,
  and the trace of calls made so far.
\<close>

record AppInstance =
  publishers :: "Publisher list"
  subscribers :: "Subscriber list"
  app_identities :: "IdentityConfig list"
  pendingShutdown :: bool
  errorShutdown :: bool
  amqp :: Amqp
  contentTypeParsers :: "(string \<times> ContentTypeParser) list"
  routes :: "route list"
  trace :: "event list"

text \<open>
  What the coordinator cannot decide itself. \<open>stop hard s\<close> is what
  \<^verbatim>\<open>Subscriber.stop(hard)\<close> leaves of the subscriber \<open>s\<close> (the class is not among
  the sources; its promise is taken to resolve). \<open>during_sleep r ss\<close> is what the other
  tasks of the event loop (the pushes still running) have made of the subscribers \<open>ss\<close>
  when the coordinator wakes up from the sleep of retry \<open>r\<close>.
\<close>

record world =
  stop :: "bool \<Rightarrow> Subscriber \<Rightarrow> Subscriber"
  during_sleep :: "nat \<Rightarrow> Subscriber list \<Rightarrow> Subscriber list"

subsection \<open>\<^verbatim>\<open>lifecycle.ts\<close>\<close>

definition totalMessagesInFlight :: "Publisher list \<Rightarrow> int" where
  "totalMessagesInFlight ps = fold (\<lambda>publisher acc. acc + messagesInFlight publisher) ps 0"

definition subscriberDeliveriesInFlight :: "Subscriber list \<Rightarrow> int" where
  "subscriberDeliveriesInFlight ss = foldl (\<lambda>prev current. prev + inFlightPushRequests current) 0 ss"

definition emit :: "event \<Rightarrow> AppInstance \<Rightarrow> AppInstance" where
  "emit e app = app\<lparr>trace := trace app @ [e]\<rparr>"

text \<open>
  \<^verbatim>\<open>app.subscribers.map((s) => s.stop(hard))\<close> and
  \<^verbatim>\<open>app.subscribers.forEach((s) => s.stop(hard))\<close>: one call per subscriber, in the order
  of the array.
\<close>

definition stop_all :: "world \<Rightarrow> bool \<Rightarrow> AppInstance \<Rightarrow> AppInstance" where
  "stop_all w hard app =
     app\<lparr>subscribers := map (stop w hard) (subscribers app),
         trace := trace app @ map (\<lambda>i. SubscriberStop i hard) [0..<length (subscribers app)]\<rparr>"

text \<open>\<^verbatim>\<open>await sleep(ms)\<close> during retry \<open>r\<close>: the call, then what the world did meanwhile.\<close>

definition sleep :: "world \<Rightarrow> nat \<Rightarrow> nat \<Rightarrow> AppInstance \<Rightarrow> AppInstance" where
  "sleep w r ms app =
     (emit (Sleep ms) app)\<lparr>subscribers := during_sleep w r (subscribers app)\<rparr>"

text \<open>
  The \<^verbatim>\<open>while (retries < 5)\<close> loop of \<open>gracefullyHandleSubscriberShutdown\<close>, with the
  forced close that follows it; \<open>retries\<close> is the loop variable on entry of an iteration.
\<close>

function poll :: "world \<Rightarrow> nat \<Rightarrow> AppInstance \<Rightarrow> AppInstance" where
  "poll w retries app =
     (if retries < 5 then
        (let retries' = retries + 1;
             deliveriesInFlight = subscriberDeliveriesInFlight (subscribers app)
         in if deliveriesInFlight = 0 then
              emit ConnectionClose (emit (Log Info NoDeliveriesInFlight) app)
            else
              poll w retries'
                (sleep w retries' 1000
                   (emit (Log Warn (DeliveriesInFlight deliveriesInFlight retries')) app)))
      else
        emit ConnectionClose (emit (Log Warn MaximumRetriesExceeded) app))"
  by pat_completeness auto
termination
  by (relation "measure (\<lambda>(w, retries, app). 5 - retries)") auto

declare poll.simps [simp del]

definition gracefullyHandleSubscriberShutdown :: "world \<Rightarrow> AppInstance \<Rightarrow> AppInstance" where
  "gracefullyHandleSubscriberShutdown w app0 =
     (let app = app0\<lparr>pendingShutdown := True\<rparr>
      in if \<not> errorShutdown app then
           poll w 0
             (emit (Log Info CheckingSubscribers)
                (stop_all w False
                   (emit (Log Info CancellingAllSubscribers) app)))
         else
           stop_all w True app)"

text \<open>
  \<^verbatim>\<open>app.close()\<close>: the framework runs the \<^verbatim>\<open>onClose\<close> hook that \<open>buildApp\<close>
  registered, which calls \<open>gracefullyHandleSubscriberShutdown(app)\<close>. (The hook also calls
  \<^verbatim>\<open>shutdownMetricsServer\<close>, whose definition is not part of the embedded sources.)
\<close>

definition onClose :: "world \<Rightarrow> AppInstance \<Rightarrow> AppInstance" where
  "onClose w app = gracefullyHandleSubscriberShutdown w app"

definition close :: "world \<Rightarrow> AppInstance \<Rightarrow> AppInstance" where
  "close w app = onClose w (emit AppClose app)"

definition handleConnectionClose :: "world \<Rightarrow> AppInstance \<Rightarrow> AppInstance" where
  "handleConnectionClose w app =
     (if pendingShutdown app then
        emit (Log Info ConnectionWasClosed) app
      else if \<not> errorShutdown app then
        close w (emit (Log Fatal ConnectionClosedUnexpectedly) (app\<lparr>errorShutdown := True\<rparr>))
      else app)"

definition handleChannelClose :: "world \<Rightarrow> AppInstance \<Rightarrow> bool \<Rightarrow> AppInstance" where
  "handleChannelClose w app isConfirmChannel =
     (if pendingShutdown app then
        emit (Log Info (ChannelWasClosed isConfirmChannel)) app
      else if \<not> errorShutdown app then
        close w
          (emit ConnectionClose
             (emit (Log Fatal ChannelClosedUnexpectedly) (app\<lparr>errorShutdown := True\<rparr>)))
      else app)"

text \<open>
  The handler registered with \<^verbatim>\<open>app.gracefulShutdown\<close> in \<open>buildApp\<close>. On a
  termination signal the shutdown plugin runs it and closes the application.
\<close>

definition gracefulShutdown :: "AppInstance \<Rightarrow> AppInstance" where
  "gracefulShutdown app = (emit (Log Info StartingGracefulShutdown) app)\<lparr>pendingShutdown := True\<rparr>"

text \<open>
  What can happen to a running application: a termination signal, a programmatic
  \<^verbatim>\<open>app.close()\<close>, the \<^verbatim>\<open>'close'\<close> event of the connection, the \<^verbatim>\<open>'close'\<close>
  event of the confirm (\<open>True\<close>) or regular (\<open>False\<close>) channel. \<open>occur\<close> dispatches
  each to the code that \<open>buildApp\<close> wired to it.
\<close>

datatype occurrence = ShutdownSignal | CloseRequested | ConnectionClosed | ChannelClosed bool

fun occur :: "world \<Rightarrow> AppInstance \<Rightarrow> occurrence \<Rightarrow> AppInstance" where
  "occur w app ShutdownSignal = close w (gracefulShutdown app)"
| "occur w app CloseRequested = close w app"
| "occur w app ConnectionClosed = handleConnectionClose w app"
| "occur w app (ChannelClosed isConfirmChannel) = handleChannelClose w app isConfirmChannel"

definition run :: "world \<Rightarrow> AppInstance \<Rightarrow> occurrence list \<Rightarrow> AppInstance" where
  "run w app os = foldl (occur w) app os"

text \<open>
  \<open>gracefullyHandleSubscriberShutdown\<close> is an \<^verbatim>\<open>async\<close> function: at each
  \<^verbatim>\<open>await\<close> it is suspended and the event loop runs whatever else is due, in
  particular the \<^verbatim>\<open>'close'\<close> listeners that \<open>buildApp\<close> attached to the connection
  and to the two channels. It is suspended at \<^verbatim>\<open>await Promise.all(...)\<close> after the
  stops, at the \<^verbatim>\<open>await sleep(1000)\<close> of each retry, and at
  \<^verbatim>\<open>await app.amqp.connection.close()\<close>.
\<close>

datatype suspension = AwaitStops | AwaitSleep nat | AwaitConnectionClose

text \<open>
  The loop and the function once more, with the suspensions written out: \<open>meanwhile s\<close> is
  what the event loop does to the application while the coordinator is suspended at \<open>s\<close>.
  Nothing but the calls to \<open>meanwhile\<close> is added to \<open>poll\<close> and to
  \<open>gracefullyHandleSubscriberShutdown\<close>; the branch taken under \<open>errorShutdown\<close> has no
  \<^verbatim>\<open>await\<close>.
\<close>

function poll_awaiting ::
  "(suspension \<Rightarrow> AppInstance \<Rightarrow> AppInstance) \<Rightarrow> world \<Rightarrow> nat \<Rightarrow> AppInstance \<Rightarrow> AppInstance" where
  "poll_awaiting meanwhile w retries app =
     (if retries < 5 then
        (let retries' = retries + 1;
             deliveriesInFlight = subscriberDeliveriesInFlight (subscribers app)
         in if deliveriesInFlight = 0 then
              meanwhile AwaitConnectionClose
                (emit ConnectionClose (emit (Log Info NoDeliveriesInFlight) app))
            else
              poll_awaiting meanwhile w retries'
                (meanwhile (AwaitSleep retries')
                   (sleep w retries' 1000
                      (emit (Log Warn (DeliveriesInFlight deliveriesInFlight retries')) app))))
      else
        meanwhile AwaitConnectionClose
          (emit ConnectionClose (emit (Log Warn MaximumRetriesExceeded) app)))"
  by pat_completeness auto
termination
  by (relation "measure (\<lambda>(meanwhile, w, retries, app). 5 - retries)") auto

declare poll_awaiting.simps [simp del]

definition gracefullyHandleSubscriberShutdown_awaiting ::
  "(suspension \<Rightarrow> AppInstance \<Rightarrow> AppInstance) \<Rightarrow> world \<Rightarrow> AppInstance \<Rightarrow> AppInstance" where
  "gracefullyHandleSubscriberShutdown_awaiting meanwhile w app0 =
     (let app = app0\<lparr>pendingShutdown := True\<rparr>
      in if \<not> errorShutdown app then
           poll_awaiting meanwhile w 0
             (emit (Log Info CheckingSubscribers)
                (meanwhile AwaitStops
                   (stop_all w False
                      (emit (Log Info CancellingAllSubscribers) app))))
         else
           stop_all w True app)"

text \<open>
  The \<^verbatim>\<open>'close'\<close> events of the AMQP objects, the listener that \<open>buildApp\<close> attached
  for each (the channel event says whether it is the confirm channel), and the line that
  a listener logs for a close it expected.
\<close>

datatype close_event = ConnectionCloseEvent | ChannelCloseEvent bool

fun on_close_event :: "world \<Rightarrow> AppInstance \<Rightarrow> close_event \<Rightarrow> AppInstance" where
  "on_close_event w app ConnectionCloseEvent = handleConnectionClose w app"
| "on_close_event w app (ChannelCloseEvent isConfirmChannel) = handleChannelClose w app isConfirmChannel"

fun expected_close :: "close_event \<Rightarrow> event" where
  "expected_close ConnectionCloseEvent = Log Info ConnectionWasClosed"
| "expected_close (ChannelCloseEvent isConfirmChannel) = Log Info (ChannelWasClosed isConfirmChannel)"

text \<open>
  Two things the event loop can do during a suspension, given the close events
  \<open>arrivals s\<close> that arrive during the suspension \<open>s\<close>: run the listener of each, in
  order (\<open>deliver\<close>); or only log each as an expected close (\<open>note_expected\<close>).
\<close>

definition deliver ::
  "world \<Rightarrow> (suspension \<Rightarrow> close_event list) \<Rightarrow> suspension \<Rightarrow> AppInstance \<Rightarrow> AppInstance" where
  "deliver w arrivals s app = foldl (on_close_event w) app (arrivals s)"

definition note_expected ::
  "(suspension \<Rightarrow> close_event list) \<Rightarrow> suspension \<Rightarrow> AppInstance \<Rightarrow> AppInstance" where
  "note_expected arrivals s app = foldl (\<lambda>a e. emit (expected_close e) a) app (arrivals s)"

text \<open>
  For stating what the polling loop does: \<open>after_sleeps w ss r k\<close> are the subscribers
  \<open>ss\<close> after the sleeps of the retries \<open>r + 1, \<dots>, k - 1\<close>; \<open>reading w app k\<close> is the
  sum that the \<open>k\<close>-th read of a graceful shutdown of \<open>app\<close> returns (the subscribers
  have been stopped, and \<open>k - 1\<close> sleeps have passed); \<open>nonzero_readings\<close> are the readings
  up to the first zero, among the five the loop can make; \<open>warnings rd ks\<close> are the calls
  of the retries \<open>ks\<close> that read a non-zero sum: the warning, then the sleep.
\<close>

definition after_sleeps :: "world \<Rightarrow> Subscriber list \<Rightarrow> nat \<Rightarrow> nat \<Rightarrow> Subscriber list" where
  "after_sleeps w ss r k = foldl (\<lambda>ss j. during_sleep w j ss) ss [Suc r..<k]"

definition reading :: "world \<Rightarrow> AppInstance \<Rightarrow> nat \<Rightarrow> int" where
  "reading w app k =
     subscriberDeliveriesInFlight (after_sleeps w (map (stop w False) (subscribers app)) 0 k)"

definition nonzero_readings :: "world \<Rightarrow> AppInstance \<Rightarrow> int list" where
  "nonzero_readings w app = takeWhile (\<lambda>n. n \<noteq> 0) (map (reading w app) [1..<6])"

definition warnings :: "(nat \<Rightarrow> int) \<Rightarrow> nat list \<Rightarrow> event list" where
  "warnings rd ks = concat (map (\<lambda>k. [Log Warn (DeliveriesInFlight (rd k) k), Sleep 1000]) ks)"

subsection \<open>\<^verbatim>\<open>publisher/build-publisher.ts\<close>\<close>

text \<open>
  Modelled from the spec: the constructor of class \<open>Publisher\<close>
  (\<^verbatim>\<open>publisher/publisher.ts\<close> is not among the sources). It keeps its four arguments;
  the counter of the publisher's runtime state starts at zero.
\<close>

definition new_Publisher :: "string \<Rightarrow> channel \<Rightarrow> MessageParser \<Rightarrow> string list \<Rightarrow> Publisher" where
  "new_Publisher q c mp ids =
     \<lparr>pub_queueName = q, channel = c, messageParser = mp, pub_identities = ids,
      messagesInFlight = 0\<rparr>"

definition buildPublisher :: "PublisherConfig \<Rightarrow> Amqp \<Rightarrow> Publisher" where
  "buildPublisher config a =
     (let messageParser =
            (if contentType config = BINARY then BinaryMessageParser
             else JSONMessageParser (schema config));
          channel =
            (if confirm config then amqp_confirmChannel a else amqp_channel a)
      in new_Publisher (queueName config) channel messageParser (identities config))"

text \<open>\<^verbatim>\<open>app.get(url, handler)\<close> and \<^verbatim>\<open>app.post(url, handler)\<close>: a new entry of the route table.\<close>

definition get :: "string \<Rightarrow> handler \<Rightarrow> AppInstance \<Rightarrow> AppInstance" where
  "get u h app = app\<lparr>routes := routes app @ [\<lparr>route_method = ''GET'', route_url = u, handler = h\<rparr>]\<rparr>"

definition post :: "string \<Rightarrow> handler \<Rightarrow> AppInstance \<Rightarrow> AppInstance" where
  "post u h app = app\<lparr>routes := routes app @ [\<lparr>route_method = ''POST'', route_url = u, handler = h\<rparr>]\<rparr>"

fun registerPublishers :: "PublisherConfig list \<Rightarrow> AppInstance \<Rightarrow> AppInstance" where
  "registerPublishers [] app = app"
| "registerPublishers (cfg # publishersConfig) app =
     (let publisher = buildPublisher cfg (amqp app);
          app1 = app\<lparr>publishers := publishers app @ [publisher]\<rparr>;
          identityGuard = \<lparr>guarded = publisher, known = app_identities app1\<rparr>;
          app2 = post (''/publish/'' @ pub_queueName publisher) (Publish publisher identityGuard) app1
      in registerPublishers publishersConfig app2)"

subsection \<open>Requests\<close>

text \<open>
  An HTTP request as it arrives: header names in lower case, and the payload that the
  framing headers delimit (so the content length of a request is the length of its
  payload, and a request has no body when its payload is empty and it is not sent with a
  transfer encoding). A response carries a greeting, the result of a publish, an error of
  the program, or an error that the framework answers by itself (\<open>FrameworkError\<close>).
\<close>

record request =
  req_method :: string
  req_url :: string
  req_headers :: "(string \<times> string) list"
  req_payload :: string

datatype payload =
    TextPayload string
  | PublishResult nat bool
  | ErrorPayload error
  | FrameworkError

record response =
  status :: nat
  payload :: payload

text \<open>
  What a request meets outside the program: \<open>matches t c\<close> says whether the framework
  takes the registered content type \<open>t\<close> to cover the content type \<open>c\<close> of a request;
  \<open>json sch b\<close> is the JSON library's verdict on the bytes \<open>b\<close> under the schema \<open>sch\<close>
  (\<open>None\<close> when they do not parse or do not validate, otherwise the bytes that are sent
  on); \<open>broker\<close> is what happens to the publish on the channel.
\<close>

datatype publish_outcome = PositiveConfirm | NegativeConfirm | ChannelError

record exchange =
  matches :: "string \<Rightarrow> string \<Rightarrow> bool"
  json :: "string option \<Rightarrow> string \<Rightarrow> string option"
  broker :: publish_outcome

definition bytes_of :: "body \<Rightarrow> string" where
  "bytes_of b = (case b of Buffer x \<Rightarrow> x | Text x \<Rightarrow> x | Object x \<Rightarrow> x | Null \<Rightarrow> [])"

text \<open>
  Modelled from the spec: \<^verbatim>\<open>IdentityGuard.verifyRequest\<close> (\<^verbatim>\<open>auth/identity-guard.ts\<close> is
  not among the sources), section 4.2. A queue without identities admits every request;
  otherwise both headers must be present, the identity allowed for the queue, and the token
  the one stored for that identity. The result is the error thrown, if any.
\<close>

definition verifyRequest :: "IdentityGuard \<Rightarrow> (string \<times> string) list \<Rightarrow> error option" where
  "verifyRequest g headers =
     (if pub_identities (guarded g) = [] then None
      else case (map_of headers ''x-bunny-identity'', map_of headers ''x-bunny-token'') of
             (Some i, Some t) \<Rightarrow>
               if i \<in> set (pub_identities (guarded g))
                  \<and> (\<exists>c \<in> set (known g). name c = i \<and> token c = t)
               then None else Some FORBIDDEN
           | _ \<Rightarrow> Some FORBIDDEN)"

text \<open>
  Modelled from the spec: \<open>parseInbound\<close> of the two message parsers
  (\<^verbatim>\<open>message-parser/\<close> is not among the sources), section 4.1.
\<close>

definition parseInbound ::
  "exchange \<Rightarrow> MessageParser \<Rightarrow> string option \<Rightarrow> body \<Rightarrow> error + string" where
  "parseInbound x mp ct b =
     (case mp of
        BinaryMessageParser \<Rightarrow>
          if ct = Some ''application/octet-stream'' then Inr (bytes_of b)
          else Inl UNSUPPORTED_CONTENT_TYPE
      | JSONMessageParser sch \<Rightarrow>
          if ct = Some ''application/json'' then
            (case json x sch (bytes_of b) of
               None \<Rightarrow> Inl INVALID_PAYLOAD
             | Some canonical \<Rightarrow> Inr canonical)
          else Inl UNSUPPORTED_CONTENT_TYPE)"

text \<open>
  Modelled from the spec: \<^verbatim>\<open>Publisher.sendMessage\<close> (\<^verbatim>\<open>publisher/publisher.ts\<close> is not
  among the sources), section 4.3, steps 1, 4 and 5; \<open>Inl\<close> is a rejected promise. On the
  confirm channel only a positive confirm resolves; on the regular channel the publish is
  fire-and-forget and only a channel error fails it.
\<close>

definition sendMessage ::
  "exchange \<Rightarrow> Publisher \<Rightarrow> (string \<times> string) list \<Rightarrow> body \<Rightarrow> error + payload" where
  "sendMessage x p headers b =
     (case parseInbound x (messageParser p) (map_of headers ''content-type'') b of
        Inl e \<Rightarrow> Inl e
      | Inr bytes \<Rightarrow>
          if channel p = ConfirmChannel then
            (case broker x of
               PositiveConfirm \<Rightarrow> Inr (PublishResult (length bytes) True)
             | _ \<Rightarrow> Inl BROKER_REJECTED)
          else
            (case broker x of
               ChannelError \<Rightarrow> Inl BROKER_REJECTED
             | _ \<Rightarrow> Inr (PublishResult (length bytes) False)))"

text \<open>
  The handler that \<open>registerPublishers\<close> registers for \<^verbatim>\<open>POST /publish/<queue>\<close>. The
  first component of the result is the status the handler has set on the reply when it
  returns (200 until \<^verbatim>\<open>res.status(201)\<close> runs), the second is how the promise of the
  \<^verbatim>\<open>async\<close> function settles: rejected with what \<open>verifyRequest\<close> threw, or as the promise
  returned by \<open>sendMessage\<close> settles.
\<close>

definition publish_handler ::
  "exchange \<Rightarrow> Publisher \<Rightarrow> IdentityGuard \<Rightarrow> (string \<times> string) list \<Rightarrow> body
     \<Rightarrow> nat \<times> (error + payload)" where
  "publish_handler x publisher identityGuard headers b =
     (case verifyRequest identityGuard headers of
        Some e \<Rightarrow> (200, Inl e)
      | None \<Rightarrow>
          (let result = sendMessage x publisher headers b;
               statusCode = 201
           in (statusCode, result)))"

text \<open>
  How the framework answers once the handler's promise has settled: a resolved value is
  sent under the status set on the reply; a rejection goes to the error handler, which
  discards a status below 400 set on the reply and answers under the status of the error.
\<close>

definition reply :: "nat \<times> (error + payload) \<Rightarrow> response" where
  "reply r =
     (case snd r of
        Inr v \<Rightarrow> \<lparr>status = fst r, payload = v\<rparr>
      | Inl e \<Rightarrow> \<lparr>status = status_of e, payload = ErrorPayload e\<rparr>)"

subsection \<open>\<^verbatim>\<open>server.ts\<close>\<close>

definition removeAllContentTypeParsers :: "AppInstance \<Rightarrow> AppInstance" where
  "removeAllContentTypeParsers app = app\<lparr>contentTypeParsers := []\<rparr>"

definition addContentTypeParser :: "string \<Rightarrow> ContentTypeParser \<Rightarrow> AppInstance \<Rightarrow> AppInstance" where
  "addContentTypeParser ct p app = app\<lparr>contentTypeParsers := contentTypeParsers app @ [(ct, p)]\<rparr>"

text \<open>
  The framework's choice of a parser for a request: a parser registered for a content
  type that covers the request's, otherwise the catch-all registered as \<^verbatim>\<open>'*'\<close>; a
  request without the header can only get the catch-all.
\<close>

definition getParser ::
  "exchange \<Rightarrow> (string \<times> ContentTypeParser) list \<Rightarrow> string option
     \<Rightarrow> ContentTypeParser option" where
  "getParser x ps ct =
     (case find (\<lambda>(t, p). t \<noteq> ''*'' \<and> (case ct of None \<Rightarrow> False | Some c \<Rightarrow> matches x t c)) ps of
        Some (t, p) \<Rightarrow> Some p
      | None \<Rightarrow> map_of ps ''*'')"

text \<open>
  \<open>buildApp\<close> calls \<^verbatim>\<open>fastify\<close> with a logger and a plugin timeout only, so the
  framework's limit on the size of a body is its default, 1 MiB.
\<close>

definition bodyLimit :: int where
  "bodyLimit = 1048576"

text \<open>
  A request has no body to parse when it has no content type, no transfer encoding and
  an empty payload.
\<close>

definition no_body :: "request \<Rightarrow> bool" where
  "no_body req \<longleftrightarrow>
     map_of (req_headers req) ''content-type'' = None
     \<and> map_of (req_headers req) ''transfer-encoding'' = None
     \<and> req_payload req = []"

text \<open>
  What the framework does with the body of a \<^verbatim>\<open>POST\<close> before the route's handler
  runs; \<open>Inl\<close> is the status it answers by itself, \<open>Inr\<close> what the handler finds in
  \<^verbatim>\<open>req.body\<close>. A request with no body to parse goes to the handler unparsed, with a
  \<^verbatim>\<open>null\<close> body. Otherwise a parser is chosen (415 when there is none), a payload longer
  than the limit is refused with 413, and the payload, collected as \<open>parseAs\<close> says, is
  handed to the parser function.
\<close>

definition parseBody :: "exchange \<Rightarrow> AppInstance \<Rightarrow> request \<Rightarrow> nat + body" where
  "parseBody x app req =
     (if no_body req then Inr Null
      else
        case getParser x (contentTypeParsers app) (map_of (req_headers req) ''content-type'') of
          None \<Rightarrow> Inl 415
        | Some p \<Rightarrow>
            if bodyLimit < int (length (req_payload req)) then Inl 413
            else
              (case parserFn p (case parseAs p of
                                  AsBuffer \<Rightarrow> Buffer (req_payload req)
                                | AsString \<Rightarrow> Text (req_payload req)) of
                 Inl e \<Rightarrow> Inl (status_of e)
               | Inr b \<Rightarrow> Inr b))"

text \<open>
  The YAML configuration, as far as the embedded sources read it, and the AMQP handle that
  the connection plugin decorates the application with once it is connected.
\<close>

record YamlConfig =
  yaml_publishers :: "PublisherConfig list"
  yaml_identities :: "IdentityConfig list"

definition connected :: Amqp where
  "connected = \<lparr>amqp_channel = RegularChannel, amqp_confirmChannel = ConfirmChannel\<rparr>"

text \<open>
  \<open>buildApp\<close>, for a connection that succeeded. \<open>builtin\<close> are the content type parsers a
  fresh framework instance comes with, \<open>a\<close> the AMQP handle, \<open>subs\<close> the subscribers that
  \<^verbatim>\<open>registerSubscribers\<close> builds (it is not among the sources, nor is
  \<^verbatim>\<open>registerConsumers\<close>). The hooks and the close handlers that \<open>buildApp\<close> wires are
  the cases of \<open>occur\<close>.
\<close>

definition buildApp ::
  "(string \<times> ContentTypeParser) list \<Rightarrow> Amqp \<Rightarrow> Subscriber list \<Rightarrow> YamlConfig \<Rightarrow> AppInstance" where
  "buildApp builtin a subs yamlConfig =
     (let app = \<lparr>publishers = [], subscribers = [], app_identities = yaml_identities yamlConfig,
                 pendingShutdown = False, errorShutdown = False, amqp = a,
                 contentTypeParsers = builtin, routes = [], trace = []\<rparr>;
          app = get ''/'' Hello app;
          app = removeAllContentTypeParsers app;
          app = addContentTypeParser ''*'' \<lparr>parseAs = AsBuffer, parserFn = (\<lambda>body. Inr body)\<rparr> app;
          app = registerPublishers (yaml_publishers yamlConfig) app;
          app = app\<lparr>subscribers := subscribers app @ subs\<rparr>
      in app)"

text \<open>
  The framework is closing once \<^verbatim>\<open>app.close()\<close> has been called.
\<close>

definition closing :: "AppInstance \<Rightarrow> bool" where
  "closing app \<longleftrightarrow> AppClose \<in> set (trace app)"

text \<open>The path of a request's URL: what precedes the query string or the fragment.\<close>

definition path_of :: "string \<Rightarrow> string" where
  "path_of u = takeWhile (\<lambda>c. c \<noteq> CHR ''?'' \<and> c \<noteq> CHR '';'' \<and> c \<noteq> CHR ''#'') u"

text \<open>
  One new request through the application. A closing framework answers every request
  with 503, before any routing (\<open>buildApp\<close> leaves \<^verbatim>\<open>return503OnClosing\<close> at its
  default). Otherwise the route is looked up by method and path (404 when there is none);
  \<^verbatim>\<open>GET /\<close> answers its greeting; a publish route has the body prepared by the
  framework and then runs its handler.
\<close>

definition inject :: "exchange \<Rightarrow> AppInstance \<Rightarrow> request \<Rightarrow> response" where
  "inject x app req =
     (if closing app then \<lparr>status = 503, payload = FrameworkError\<rparr>
      else
        case find (\<lambda>r. route_method r = req_method req \<and> route_url r = path_of (req_url req))
               (routes app) of
          None \<Rightarrow> \<lparr>status = 404, payload = FrameworkError\<rparr>
        | Some r \<Rightarrow>
            (case handler r of
               Hello \<Rightarrow> \<lparr>status = 200, payload = TextPayload ''Hello from Bunny REST Proxy''\<rparr>
             | Publish publisher identityGuard \<Rightarrow>
                 (case parseBody x app req of
                    Inl code \<Rightarrow> \<lparr>status = code, payload = FrameworkError\<rparr>
                  | Inr b \<Rightarrow>
                      reply (publish_handler x publisher identityGuard (req_headers req) b))))"

subsection \<open>Examples\<close>

text \<open>
  Four publishers and the identities of the repository's test configuration
  (\<^verbatim>\<open>server.spec.ts\<close>).
\<close>

definition binaryq :: PublisherConfig where
  "binaryq = \<lparr>queueName = ''binaryq'', contentType = BINARY, schema = None,
               confirm = True, identities = []\<rparr>"

definition jsonq :: PublisherConfig where
  "jsonq = \<lparr>queueName = ''jsonq'', contentType = JSON, schema = Some ''{}'',
             confirm = True, identities = []\<rparr>"

definition nonconfirm :: PublisherConfig where
  "nonconfirm = \<lparr>queueName = ''nonconfirm'', contentType = JSON, schema = Some ''{}'',
                  confirm = False, identities = []\<rparr>"

definition auth :: PublisherConfig where
  "auth = \<lparr>queueName = ''auth'', contentType = BINARY, schema = None,
            confirm = True, identities = [''Bob'']\<rparr>"

definition test_yamlConfig :: YamlConfig where
  "test_yamlConfig =
     \<lparr>yaml_publishers = [binaryq, jsonq, nonconfirm, auth],
      yaml_identities = [\<lparr>name = ''Bob'', token = ''THISisBOBSsuperSECRETauthToken123''\<rparr>,
                         \<lparr>name = ''Alice'', token = ''THISisALICESkindaSECRETauthToken123''\<rparr>]\<rparr>"

text \<open>
  Two worlds. In \<open>draining\<close> every subscriber finishes one push per sleep, and a hard stop
  cancels its pushes; in \<open>stuck\<close> nothing ever changes.
\<close>

definition draining :: world where
  "draining =
     \<lparr>stop = (\<lambda>hard s. if hard then s\<lparr>inFlightPushRequests := 0\<rparr> else s),
      during_sleep =
        (\<lambda>r ss. map (\<lambda>s. s\<lparr>inFlightPushRequests := max 0 (inFlightPushRequests s - 1)\<rparr>) ss)\<rparr>"

definition stuck :: world where
  "stuck = \<lparr>stop = (\<lambda>hard s. s), during_sleep = (\<lambda>r ss. ss)\<rparr>"

text \<open>
  Applications: \<open>pushing_app\<close> has two subscribers with two and one pushes in flight;
  \<open>slow_app\<close> has one subscriber with four; \<open>publishing_app\<close> has no subscriber and one publisher with a publish in flight;
  \<open>doomed_app\<close> is \<open>pushing_app\<close> once \<open>errorShutdown\<close> has been set; \<open>failed_app\<close> is
  \<open>pushing_app\<close> after its confirm channel closed unexpectedly.
\<close>

definition pushing_app :: AppInstance where
  "pushing_app =
     buildApp [] connected [\<lparr>inFlightPushRequests = 2\<rparr>, \<lparr>inFlightPushRequests = 1\<rparr>]
       test_yamlConfig"

definition slow_app :: AppInstance where
  "slow_app = buildApp [] connected [\<lparr>inFlightPushRequests = 4\<rparr>] test_yamlConfig"

definition publishing_app :: AppInstance where
  "publishing_app =
     (buildApp [] connected [] test_yamlConfig)
       \<lparr>publishers := [(buildPublisher binaryq connected)\<lparr>messagesInFlight := 1\<rparr>]\<rparr>"

definition doomed_app :: AppInstance where
  "doomed_app = pushing_app\<lparr>errorShutdown := True\<rparr>"

definition failed_app :: AppInstance where
  "failed_app = handleChannelClose draining pushing_app True"

text \<open>
  A broker that confirms, with a JSON library that accepts everything but the malformed
  body of the tests, and content types that cover themselves only; the binary publish of
  the tests.
\<close>

definition confirming :: exchange where
  "confirming =
     \<lparr>matches = (\<lambda>t c. t = c),
      json = (\<lambda>sch b. if b = ''{ouch, this doesn't look like json'' then None else Some b),
      broker = PositiveConfirm\<rparr>"

definition publish_request :: request where
  "publish_request =
     \<lparr>req_method = ''POST'', req_url = ''/publish/binaryq'',
      req_headers = [(''content-type'', ''application/octet-stream'')],
      req_payload = ''some payload''\<rparr>"

text \<open>
  The greeting request; a \<^verbatim>\<open>POST\<close> with neither content type nor body; a binary publish
  one byte over the body limit.
\<close>

definition root_request :: request where
  "root_request = \<lparr>req_method = ''GET'', req_url = ''/'', req_headers = [], req_payload = []\<rparr>"

definition bodyless_request :: request where
  "bodyless_request =
     \<lparr>req_method = ''POST'', req_url = ''/publish/binaryq'', req_headers = [], req_payload = []\<rparr>"

definition oversized_request :: request where
  "oversized_request =
     \<lparr>req_method = ''POST'', req_url = ''/publish/binaryq'',
      req_headers = [(''content-type'', ''application/octet-stream'')],
      req_payload = replicate 1048577 (CHR ''a'')\<rparr>"

text \<open>
  Close events during a shutdown: the confirm channel closes while the stops are awaited,
  the regular channel during the first sleep, and the connection while its own close is
  awaited.
\<close>

fun closing_down :: "suspension \<Rightarrow> close_event list" where
  "closing_down AwaitStops = [ChannelCloseEvent True]"
| "closing_down (AwaitSleep r) = (if r = 1 then [ChannelCloseEvent False] else [])"
| "closing_down AwaitConnectionClose = [ConnectionCloseEvent]"

section \<open>Properties\<close>

subsection \<open>Fields through the steps of the coordinator\<close>

lemma emit_fields:
  "trace (emit e app) = trace app @ [e]"
  "subscribers (emit e app) = subscribers app"
  "publishers (emit e app) = publishers app"
  "pendingShutdown (emit e app) = pendingShutdown app"
  "errorShutdown (emit e app) = errorShutdown app"
  by (simp_all add: emit_def)

lemma sleep_fields:
  "trace (sleep w r ms app) = trace app @ [Sleep ms]"
  "subscribers (sleep w r ms app) = during_sleep w r (subscribers app)"
  "publishers (sleep w r ms app) = publishers app"
  "pendingShutdown (sleep w r ms app) = pendingShutdown app"
  "errorShutdown (sleep w r ms app) = errorShutdown app"
  by (simp_all add: sleep_def emit_def)

lemma stop_all_fields:
  "trace (stop_all w hard app) =
     trace app @ map (\<lambda>i. SubscriberStop i hard) [0..<length (subscribers app)]"
  "subscribers (stop_all w hard app) = map (stop w hard) (subscribers app)"
  "publishers (stop_all w hard app) = publishers app"
  "pendingShutdown (stop_all w hard app) = pendingShutdown app"
  "errorShutdown (stop_all w hard app) = errorShutdown app"
  by (simp_all add: stop_all_def)

lemma emit_publishers: "emit e (app\<lparr>publishers := ps\<rparr>) = (emit e app)\<lparr>publishers := ps\<rparr>"
  by (simp add: emit_def)

lemma sleep_publishers:
  "sleep w r ms (app\<lparr>publishers := ps\<rparr>) = (sleep w r ms app)\<lparr>publishers := ps\<rparr>"
  by (simp add: sleep_def emit_def)

lemma stop_all_publishers:
  "stop_all w hard (app\<lparr>publishers := ps\<rparr>) = (stop_all w hard app)\<lparr>publishers := ps\<rparr>"
  by (simp add: stop_all_def)

text \<open>The loop changes neither flag, and neither reads nor writes the publishers.\<close>

lemma poll_flags:
  "pendingShutdown (poll w retries app) = pendingShutdown app
   \<and> errorShutdown (poll w retries app) = errorShutdown app"
proof (induction w retries app rule: poll.induct)
  case (1 w retries app)
  show ?case
  proof (cases "retries < 5 \<and> subscriberDeliveriesInFlight (subscribers app) \<noteq> 0")
    case True
    then show ?thesis
      using "1.IH"[of "retries + 1" "subscriberDeliveriesInFlight (subscribers app)"]
      by (subst (1 2) poll.simps) (simp add: Let_def sleep_fields emit_fields)
  next
    case False
    then show ?thesis
      by (subst (1 2) poll.simps) (auto simp add: Let_def emit_fields)
  qed
qed

lemma poll_publishers:
  "poll w retries (app\<lparr>publishers := ps\<rparr>) = (poll w retries app)\<lparr>publishers := ps\<rparr>"
proof (induction w retries app rule: poll.induct)
  case (1 w retries app)
  show ?case
  proof (cases "retries < 5 \<and> subscriberDeliveriesInFlight (subscribers app) \<noteq> 0")
    case True
    then show ?thesis
      using "1.IH"[of "retries + 1" "subscriberDeliveriesInFlight (subscribers app)"]
      by (subst (1 2) poll.simps) (simp add: Let_def sleep_publishers emit_publishers)
  next
    case False
    then show ?thesis
      by (subst (1 2) poll.simps) (auto simp add: Let_def emit_publishers)
  qed
qed

lemma shutdown_flags:
  "pendingShutdown (gracefullyHandleSubscriberShutdown w app)"
  "errorShutdown (gracefullyHandleSubscriberShutdown w app) = errorShutdown app"
  by (simp_all add: gracefullyHandleSubscriberShutdown_def Let_def poll_flags
        emit_fields stop_all_fields)

lemma shutdown_publishers:
  "gracefullyHandleSubscriberShutdown w (app\<lparr>publishers := ps\<rparr>)
     = (gracefullyHandleSubscriberShutdown w app)\<lparr>publishers := ps\<rparr>"
proof -
  have flip: "app\<lparr>publishers := ps, pendingShutdown := True\<rparr>
                = app\<lparr>pendingShutdown := True, publishers := ps\<rparr>"
    by simp
  show ?thesis
    unfolding gracefullyHandleSubscriberShutdown_def Let_def flip
    by (simp add: poll_publishers emit_publishers stop_all_publishers)
qed

lemma shutdown_entry:
  "gracefullyHandleSubscriberShutdown w (app\<lparr>pendingShutdown := True\<rparr>)
     = gracefullyHandleSubscriberShutdown w app"
  by (simp add: gracefullyHandleSubscriberShutdown_def)

lemma shutdown_hard:
  "errorShutdown app \<Longrightarrow>
   gracefullyHandleSubscriberShutdown w app =
     app\<lparr>pendingShutdown := True,
         subscribers := map (stop w True) (subscribers app),
         trace := trace app @ map (\<lambda>i. SubscriberStop i True) [0..<length (subscribers app)]\<rparr>"
  by (simp add: gracefullyHandleSubscriberShutdown_def Let_def stop_all_def)

lemma close_flags:
  "pendingShutdown (close w app)"
  "errorShutdown (close w app) = errorShutdown app"
  by (simp_all add: close_def onClose_def shutdown_flags emit_fields)

lemma handlers_expected:
  "pendingShutdown app \<Longrightarrow> handleConnectionClose w app = emit (Log Info ConnectionWasClosed) app"
  "pendingShutdown app \<Longrightarrow> handleChannelClose w app c = emit (Log Info (ChannelWasClosed c)) app"
  by (simp_all add: handleConnectionClose_def handleChannelClose_def)

lemma handlers_flags:
  "pendingShutdown app \<Longrightarrow> pendingShutdown (handleConnectionClose w app)"
  "pendingShutdown app \<Longrightarrow> pendingShutdown (handleChannelClose w app c)"
  "errorShutdown app \<Longrightarrow> errorShutdown (handleConnectionClose w app)"
  "errorShutdown app \<Longrightarrow> errorShutdown (handleChannelClose w app c)"
  by (simp_all add: handleConnectionClose_def handleChannelClose_def emit_fields)

lemma occur_flags:
  "pendingShutdown app \<Longrightarrow> pendingShutdown (occur w app oc)"
  "errorShutdown app \<Longrightarrow> errorShutdown (occur w app oc)"
  by (cases oc; simp add: close_flags handlers_flags gracefulShutdown_def emit_fields)+

lemma run_flags:
  "pendingShutdown app \<Longrightarrow> pendingShutdown (run w app os)"
  "errorShutdown app \<Longrightarrow> errorShutdown (run w app os)"
  unfolding run_def
  by (induction os arbitrary: app; simp add: occur_flags)+

lemma registerPublishers_fields:
  "pendingShutdown (registerPublishers cfgs app) = pendingShutdown app"
  "errorShutdown (registerPublishers cfgs app) = errorShutdown app"
  "contentTypeParsers (registerPublishers cfgs app) = contentTypeParsers app"
  "subscribers (registerPublishers cfgs app) = subscribers app"
  "trace (registerPublishers cfgs app) = trace app"
  by (induction cfgs arbitrary: app; simp add: Let_def post_def)+

lemma buildApp_fields:
  "pendingShutdown (buildApp builtin a subs yamlConfig) = False"
  "errorShutdown (buildApp builtin a subs yamlConfig) = False"
  "contentTypeParsers (buildApp builtin a subs yamlConfig)
     = [(''*'', \<lparr>parseAs = AsBuffer, parserFn = (\<lambda>body. Inr body)\<rparr>)]"
  "subscribers (buildApp builtin a subs yamlConfig) = subs"
  "trace (buildApp builtin a subs yamlConfig) = []"
  by (simp_all add: buildApp_def Let_def registerPublishers_fields get_def
        removeAllContentTypeParsers_def addContentTypeParser_def)

text \<open>Both in-flight totals are sums over the array.\<close>

lemma deliveries_foldl:
  "foldl (\<lambda>prev current. prev + inFlightPushRequests current) acc ss
     = acc + sum_list (map inFlightPushRequests ss)"
  by (induction ss arbitrary: acc) simp_all

lemma deliveries_sum:
  "subscriberDeliveriesInFlight ss = sum_list (map inFlightPushRequests ss)"
  by (simp add: subscriberDeliveriesInFlight_def deliveries_foldl)

lemma total_fold:
  "fold (\<lambda>publisher acc. acc + messagesInFlight publisher) ps acc
     = acc + sum_list (map messagesInFlight ps)"
  by (induction ps arbitrary: acc) simp_all

lemma total_sum:
  "totalMessagesInFlight ps = sum_list (map messagesInFlight ps)"
  by (simp add: totalMessagesInFlight_def total_fold)

subsection \<open>The calls of the polling loop\<close>

text \<open>
  Started with the loop variable at \<open>retries\<close>, the loop warns and sleeps once for every
  non-zero reading among the reads it still can make, up to the first zero, and then
  closes the connection: with the message of the zero read if there was one, with the
  message of the exhausted retries otherwise.
\<close>

lemma after_sleeps_first: "after_sleeps w ss r (Suc r) = ss"
  by (simp add: after_sleeps_def)

lemma after_sleeps_next:
  "Suc r < k \<Longrightarrow> after_sleeps w ss r k = after_sleeps w (during_sleep w (Suc r) ss) (Suc r) k"
  by (simp add: after_sleeps_def upt_conv_Cons)

lemma warnings_cong: "(\<And>k. k \<in> set ks \<Longrightarrow> f k = g k) \<Longrightarrow> warnings f ks = warnings g ks"
  unfolding warnings_def by (induction ks) auto

lemma warnings_Cons_upt:
  "warnings f [Suc r..<Suc r + Suc n] =
     [Log Warn (DeliveriesInFlight (f (Suc r)) (Suc r)), Sleep 1000]
     @ warnings f [Suc (Suc r)..<Suc (Suc r) + n]"
proof -
  have "[Suc r..<Suc r + Suc n] = Suc r # [Suc (Suc r)..<Suc (Suc r) + n]"
    by (subst upt_conv_Cons) simp_all
  then show ?thesis by (simp add: warnings_def)
qed

lemma poll_trace:
  "retries \<le> 5 \<Longrightarrow>
   trace (poll w retries app) =
     trace app
     @ warnings (\<lambda>k. subscriberDeliveriesInFlight (after_sleeps w (subscribers app) retries k))
         [Suc retries..<Suc retries + length (takeWhile (\<lambda>n. n \<noteq> 0)
            (map (\<lambda>k. subscriberDeliveriesInFlight (after_sleeps w (subscribers app) retries k))
               [Suc retries..<6]))]
     @ (if retries + length (takeWhile (\<lambda>n. n \<noteq> 0)
            (map (\<lambda>k. subscriberDeliveriesInFlight (after_sleeps w (subscribers app) retries k))
               [Suc retries..<6])) < 5
        then [Log Info NoDeliveriesInFlight, ConnectionClose]
        else [Log Warn MaximumRetriesExceeded, ConnectionClose])"
proof (induction w retries app rule: poll.induct)
  case (1 w retries app)
  let ?rd = "\<lambda>k. subscriberDeliveriesInFlight (after_sleeps w (subscribers app) retries k)"
  let ?d = "subscriberDeliveriesInFlight (subscribers app)"
  show ?case
  proof (cases "retries < 5")
    case False
    with 1(2) have r5: "retries = 5" by simp
    show ?thesis
      by (subst poll.simps) (simp add: r5 emit_fields warnings_def)
  next
    case lt: True
    have upt: "[Suc retries..<6] = Suc retries # [Suc (Suc retries)..<6]"
      using lt by (simp add: upt_conv_Cons)
    have rd_first: "?rd (Suc retries) = ?d"
      by (simp add: after_sleeps_first)
    show ?thesis
    proof (cases "?d = 0")
      case True
      have ns: "takeWhile (\<lambda>n. n \<noteq> 0) (map ?rd [Suc retries..<6]) = []"
        by (simp add: upt rd_first True)
      show ?thesis
        by (subst poll.simps) (simp add: ns lt True emit_fields warnings_def Let_def)
    next
      case nz: False
      let ?app' = "sleep w (Suc retries) 1000
                     (emit (Log Warn (DeliveriesInFlight ?d (Suc retries))) app)"
      let ?rd' = "\<lambda>k. subscriberDeliveriesInFlight (after_sleeps w (subscribers ?app') (Suc retries) k)"
      let ?ns' = "takeWhile (\<lambda>n. n \<noteq> 0) (map ?rd' [Suc (Suc retries)..<6])"
      have subs': "subscribers ?app' = during_sleep w (Suc retries) (subscribers app)"
        by (simp add: sleep_fields emit_fields)
      have tr': "trace ?app' = trace app @ [Log Warn (DeliveriesInFlight ?d (Suc retries)), Sleep 1000]"
        by (simp add: sleep_fields emit_fields)
      have rd_eq: "?rd k = ?rd' k" if "Suc retries < k" for k
        using that by (simp only: subs' after_sleeps_next)
      have m_eq: "map ?rd [Suc (Suc retries)..<6] = map ?rd' [Suc (Suc retries)..<6]"
      proof (rule map_cong)
        fix k
        assume "k \<in> set [Suc (Suc retries)..<6]"
        then have "Suc retries < k"
          by (simp only: set_upt atLeastLessThan_iff) arith
        then show "?rd k = ?rd' k" by (rule rd_eq)
      qed simp
      have ns: "takeWhile (\<lambda>n. n \<noteq> 0) (map ?rd [Suc retries..<6]) = ?d # ?ns'"
        unfolding upt list.map m_eq rd_first using nz by simp
      have IH: "trace (poll w (Suc retries) ?app') =
                  trace ?app'
                  @ warnings ?rd' [Suc (Suc retries)..<Suc (Suc retries) + length ?ns']
                  @ (if Suc retries + length ?ns' < 5
                     then [Log Info NoDeliveriesInFlight, ConnectionClose]
                     else [Log Warn MaximumRetriesExceeded, ConnectionClose])"
        using "1.IH"[OF lt refl refl nz] lt by simp
      have w_eq: "warnings ?rd [Suc (Suc retries)..<Suc (Suc retries) + length ?ns']
                = warnings ?rd' [Suc (Suc retries)..<Suc (Suc retries) + length ?ns']"
      proof (rule warnings_cong)
        fix k
        assume "k \<in> set [Suc (Suc retries)..<Suc (Suc retries) + length ?ns']"
        then have "Suc retries < k"
          by (simp only: set_upt atLeastLessThan_iff) arith
        then show "?rd k = ?rd' k" by (rule rd_eq)
      qed
      have w_split: "warnings ?rd [Suc retries..<Suc retries + Suc (length ?ns')]
                = [Log Warn (DeliveriesInFlight ?d (Suc retries)), Sleep 1000]
                  @ warnings ?rd [Suc (Suc retries)..<Suc (Suc retries) + length ?ns']"
        by (simp only: warnings_Cons_upt rd_first)
      have step: "poll w retries app = poll w (Suc retries) ?app'"
        by (subst poll.simps) (simp add: lt nz Let_def)
      show ?thesis
        unfolding step ns IH tr' length_Cons w_split w_eq by simp
    qed
  qed
qed


lemma status_of_not_2xx:
  "\<not> (200 \<le> status_of e \<and> status_of e < 300)" "status_of e \<noteq> 201"
  by (cases e; simp)+

lemma buildPublisher_confirm:
  "confirm config \<Longrightarrow> channel (buildPublisher config connected) = ConfirmChannel"
  by (simp add: buildPublisher_def new_Publisher_def connected_def Let_def)

subsection \<open>Close events while the coordinator is suspended\<close>

text \<open>
  With \<open>pendingShutdown\<close> set a listener only logs the close as expected, so running the
  listeners during a suspension of the coordinator is the same as logging one line per
  event; the flag is set before the first suspension and no step clears it.
\<close>

lemma on_close_event_expected:
  "pendingShutdown app \<Longrightarrow> on_close_event w app e = emit (expected_close e) app"
  by (cases e) (simp_all add: handlers_expected)

lemma listeners_expected:
  "pendingShutdown app \<Longrightarrow>
   foldl (on_close_event w) app es = foldl (\<lambda>a e. emit (expected_close e) a) app es"
  by (induction es arbitrary: app) (simp_all add: on_close_event_expected emit_fields)

lemma deliver_expected:
  "pendingShutdown app \<Longrightarrow> deliver w arrivals s app = note_expected arrivals s app"
  by (simp add: deliver_def note_expected_def listeners_expected)

lemma expected_close_not_AppClose: "expected_close e \<noteq> AppClose"
  by (cases e) simp_all

lemma noted_fields:
  "pendingShutdown (foldl (\<lambda>a e. emit (expected_close e) a) app es) = pendingShutdown app"
  "errorShutdown (foldl (\<lambda>a e. emit (expected_close e) a) app es) = errorShutdown app"
  "subscribers (foldl (\<lambda>a e. emit (expected_close e) a) app es) = subscribers app"
  "trace (foldl (\<lambda>a e. emit (expected_close e) a) app es) = trace app @ map expected_close es"
  by (induction es arbitrary: app; simp add: emit_fields)+

lemma note_expected_fields:
  "pendingShutdown (note_expected arrivals s app) = pendingShutdown app"
  "errorShutdown (note_expected arrivals s app) = errorShutdown app"
  "subscribers (note_expected arrivals s app) = subscribers app"
  "trace (note_expected arrivals s app) = trace app @ map expected_close (arrivals s)"
  by (simp_all add: note_expected_def noted_fields)

lemma count_expected: "count_list (map expected_close es) AppClose = 0"
  by (induction es) (simp_all add: expected_close_not_AppClose)

lemma count_stops: "count_list (map (\<lambda>i. SubscriberStop i hard) is) AppClose = 0"
  by (induction "is") simp_all

lemma count_list_app: "count_list (xs @ ys) a = count_list xs a + count_list ys a"
  by (induction xs) simp_all

text \<open>With \<open>pendingShutdown\<close> set, running the listeners during the loop is logging.\<close>

lemma poll_awaiting_expected:
  "pendingShutdown app \<Longrightarrow>
   poll_awaiting (deliver w' arrivals) w retries app
     = poll_awaiting (note_expected arrivals) w retries app"
proof (induction n \<equiv> "5 - retries" arbitrary: retries app)
  case 0
  then have "\<not> retries < 5" by simp
  then show ?case
    using "0.prems"
    by (subst (1 2) poll_awaiting.simps) (simp add: deliver_expected emit_fields)
next
  case (Suc n)
  then have lt: "retries < 5" by simp
  let ?d = "subscriberDeliveriesInFlight (subscribers app)"
  show ?case
  proof (cases "?d = 0")
    case True
    then show ?thesis
      using lt Suc.prems
      by (subst (1 2) poll_awaiting.simps) (simp add: Let_def deliver_expected emit_fields)
  next
    case False
    let ?app' = "sleep w (retries + 1) 1000
                   (emit (Log Warn (DeliveriesInFlight ?d (retries + 1))) app)"
    have p: "pendingShutdown ?app'"
      using Suc.prems by (simp add: sleep_fields emit_fields)
    have same: "deliver w' arrivals (AwaitSleep (retries + 1)) ?app'
                  = note_expected arrivals (AwaitSleep (retries + 1)) ?app'"
      using p by (rule deliver_expected)
    have p': "pendingShutdown (note_expected arrivals (AwaitSleep (retries + 1)) ?app')"
      using p by (simp add: note_expected_fields)
    have IH: "poll_awaiting (deliver w' arrivals) w (retries + 1)
                (note_expected arrivals (AwaitSleep (retries + 1)) ?app')
              = poll_awaiting (note_expected arrivals) w (retries + 1)
                (note_expected arrivals (AwaitSleep (retries + 1)) ?app')"
      using Suc.hyps(2) lt by (intro Suc.hyps(1) p') simp
    show ?thesis
      using lt False
      by (subst (1 2) poll_awaiting.simps) (simp only: Let_def if_True if_False same IH)
  qed
qed

lemma poll_awaiting_noted:
  "pendingShutdown (poll_awaiting (note_expected arrivals) w retries app) = pendingShutdown app
   \<and> errorShutdown (poll_awaiting (note_expected arrivals) w retries app) = errorShutdown app
   \<and> count_list (trace (poll_awaiting (note_expected arrivals) w retries app)) AppClose
       = count_list (trace app) AppClose"
proof (induction n \<equiv> "5 - retries" arbitrary: retries app)
  case 0
  then have "\<not> retries < 5" by simp
  then show ?case
    by (subst (1 2 3) poll_awaiting.simps)
       (simp add: note_expected_fields emit_fields count_list_app count_expected)
next
  case (Suc n)
  then have lt: "retries < 5" by simp
  let ?d = "subscriberDeliveriesInFlight (subscribers app)"
  show ?case
  proof (cases "?d = 0")
    case True
    then show ?thesis
      using lt
      by (subst (1 2 3) poll_awaiting.simps)
         (simp add: Let_def note_expected_fields emit_fields count_list_app count_expected)
  next
    case False
    let ?app' = "note_expected arrivals (AwaitSleep (retries + 1))
                   (sleep w (retries + 1) 1000
                      (emit (Log Warn (DeliveriesInFlight ?d (retries + 1))) app))"
    have IH: "pendingShutdown (poll_awaiting (note_expected arrivals) w (retries + 1) ?app')
                = pendingShutdown ?app'
              \<and> errorShutdown (poll_awaiting (note_expected arrivals) w (retries + 1) ?app')
                = errorShutdown ?app'
              \<and> count_list (trace (poll_awaiting (note_expected arrivals) w (retries + 1) ?app')) AppClose
                = count_list (trace ?app') AppClose"
      using Suc.hyps(2) lt by (intro Suc.hyps(1)) simp
    have step: "poll_awaiting (note_expected arrivals) w retries app
                  = poll_awaiting (note_expected arrivals) w (retries + 1) ?app'"
      using lt False by (subst poll_awaiting.simps) (simp add: Let_def)
    show ?thesis
      unfolding step using IH
      by (simp add: note_expected_fields sleep_fields emit_fields count_list_app count_expected)
  qed
qed

lemma poll_awaiting_quiet:
  "poll_awaiting (\<lambda>s a. a) w retries app = poll w retries app"
proof (induction w retries app rule: poll.induct)
  case (1 w retries app)
  show ?case
  proof (cases "retries < 5 \<and> subscriberDeliveriesInFlight (subscribers app) \<noteq> 0")
    case True
    then show ?thesis
      using "1.IH"[of "retries + 1" "subscriberDeliveriesInFlight (subscribers app)"]
      by (subst poll_awaiting.simps, subst poll.simps) (simp add: Let_def)
  next
    case False
    then show ?thesis
      by (subst poll_awaiting.simps, subst poll.simps) (auto simp add: Let_def)
  qed
qed

lemma shutdown_awaiting_expected:
  "gracefullyHandleSubscriberShutdown_awaiting (deliver w' arrivals) w app
     = gracefullyHandleSubscriberShutdown_awaiting (note_expected arrivals) w app"
proof -
  let ?app = "stop_all w False
                (emit (Log Info CancellingAllSubscribers) (app\<lparr>pendingShutdown := True\<rparr>))"
  have p: "pendingShutdown ?app"
    by (simp add: stop_all_fields emit_fields)
  have same: "deliver w' arrivals AwaitStops ?app = note_expected arrivals AwaitStops ?app"
    using p by (rule deliver_expected)
  have p': "pendingShutdown (emit (Log Info CheckingSubscribers)
                               (note_expected arrivals AwaitStops ?app))"
    using p by (simp add: emit_fields note_expected_fields)
  show ?thesis
    unfolding gracefullyHandleSubscriberShutdown_awaiting_def Let_def same
    using poll_awaiting_expected[OF p'] by simp
qed

lemma shutdown_awaiting_noted:
  "pendingShutdown (gracefullyHandleSubscriberShutdown_awaiting (note_expected arrivals) w app)"
  "errorShutdown (gracefullyHandleSubscriberShutdown_awaiting (note_expected arrivals) w app)
     = errorShutdown app"
  "count_list (trace (gracefullyHandleSubscriberShutdown_awaiting (note_expected arrivals) w app))
     AppClose = count_list (trace app) AppClose"
  by (simp_all add: gracefullyHandleSubscriberShutdown_awaiting_def Let_def poll_awaiting_noted
        emit_fields stop_all_fields note_expected_fields count_list_app count_expected count_stops)

lemma shutdown_awaiting_quiet:
  "gracefullyHandleSubscriberShutdown_awaiting (\<lambda>s a. a) w app
     = gracefullyHandleSubscriberShutdown w app"
  by (simp add: gracefullyHandleSubscriberShutdown_awaiting_def
        gracefullyHandleSubscriberShutdown_def poll_awaiting_quiet Let_def)

subsection \<open>A closing server\<close>









subsection \<open>The publish scenarios of the repository's tests\<close>

text \<open>
  On the test configuration the model answers as the tests expect: 201 with the payload
  length for a JSON and for a binary publish, with and without confirms; 415 for binary
  data sent to a JSON publisher; 400 for malformed JSON; 403 without credentials or with
  a wrong token on the restricted queue, 201 with the right ones; 200 on \<^verbatim>\<open>GET /\<close>. A
  query string does not change the route, and a \<^verbatim>\<open>POST\<close> without content type and body
  is refused by the message parser of the publisher, with 415.
\<close>

lemma scenario_publish_json:
  \<open>inject confirming pushing_app
     \<lparr>req_method = ''POST'', req_url = ''/publish/jsonq'',
      req_headers = [(''content-type'', ''application/json'')],
      req_payload = ''{"ok":true}''\<rparr>
   = \<lparr>status = 201, payload = PublishResult 11 True\<rparr>\<close>
  by code_simp

lemma scenario_publish_binary:
  "inject confirming pushing_app publish_request
   = \<lparr>status = 201, payload = PublishResult 12 True\<rparr>"
  by code_simp

lemma scenario_publish_nonconfirm:
  \<open>inject confirming pushing_app
     \<lparr>req_method = ''POST'', req_url = ''/publish/nonconfirm'',
      req_headers = [(''content-type'', ''application/json'')],
      req_payload = ''{"ok":true}''\<rparr>
   = \<lparr>status = 201, payload = PublishResult 11 False\<rparr>\<close>
  by code_simp

lemma scenario_binary_to_json_publisher:
  "status (inject confirming pushing_app
     \<lparr>req_method = ''POST'', req_url = ''/publish/jsonq'',
      req_headers = [(''content-type'', ''application/octet-stream'')],
      req_payload = ''binarystuff''\<rparr>) = 415"
  by code_simp

lemma scenario_invalid_json:
  "status (inject confirming pushing_app
     \<lparr>req_method = ''POST'', req_url = ''/publish/jsonq'',
      req_headers = [(''content-type'', ''application/json'')],
      req_payload = ''{ouch, this doesn't look like json''\<rparr>) = 400"
  by code_simp

lemma scenario_restricted_queue:
  "status (inject confirming pushing_app
     \<lparr>req_method = ''POST'', req_url = ''/publish/auth'',
      req_headers = [(''content-type'', ''application/octet-stream'')],
      req_payload = ''message content''\<rparr>) = 403"
  "status (inject confirming pushing_app
     \<lparr>req_method = ''POST'', req_url = ''/publish/auth'',
      req_headers = [(''content-type'', ''application/octet-stream''),
                     (''x-bunny-identity'', ''Bob''),
                     (''x-bunny-token'', ''doesntlooklikeBobstoken'')],
      req_payload = ''message content''\<rparr>) = 403"
  "status (inject confirming pushing_app
     \<lparr>req_method = ''POST'', req_url = ''/publish/auth'',
      req_headers = [(''content-type'', ''application/octet-stream''),
                     (''x-bunny-identity'', ''Bob''),
                     (''x-bunny-token'', ''THISisBOBSsuperSECRETauthToken123'')],
      req_payload = ''message content''\<rparr>) = 201"
  by code_simp+

lemma scenario_root:
  "inject confirming pushing_app root_request
     = \<lparr>status = 200, payload = TextPayload ''Hello from Bunny REST Proxy''\<rparr>"
  by code_simp

lemma scenario_query_string:
  "status (inject confirming pushing_app (publish_request\<lparr>req_url := ''/publish/binaryq?x=1''\<rparr>)) = 201"
  by code_simp

lemma scenario_bodyless:
  "inject confirming pushing_app bodyless_request
     = \<lparr>status = 415, payload = ErrorPayload UNSUPPORTED_CONTENT_TYPE\<rparr>"
  by code_simp

section \<open>The claims\<close>

text \<open>
  Claim C1. A graceful shutdown (\<open>errorShutdown\<close> false) first calls \<open>stop(false)\<close> on
  every subscriber, in order; the \<open>k\<close>-th read then returns the sum of
  \<open>inFlightPushRequests\<close> over the subscribers as they are after \<open>k - 1\<close> sleeps; every
  non-zero read before the first zero read, among at most five, is followed by its warning
  and a sleep of 1000 ms; the connection is closed exactly once, as the last call: right
  after the first zero read if one of the five reads is zero, and otherwise after the
  fifth warning and sleep.
\<close>

theorem graceful_shutdown_trace:
  assumes "\<not> errorShutdown app"
  shows "trace (gracefullyHandleSubscriberShutdown w app) =
           trace app
           @ [Log Info CancellingAllSubscribers]
           @ map (\<lambda>i. SubscriberStop i False) [0..<length (subscribers app)]
           @ [Log Info CheckingSubscribers]
           @ warnings (reading w app) [1..<Suc (length (nonzero_readings w app))]
           @ (if length (nonzero_readings w app) < 5
              then [Log Info NoDeliveriesInFlight, ConnectionClose]
              else [Log Warn MaximumRetriesExceeded, ConnectionClose])
         \<and> reading w app k =
             sum_list (map inFlightPushRequests
               (after_sleeps w (map (stop w False) (subscribers app)) 0 k))"
proof -
  let ?app' = "emit (Log Info CheckingSubscribers)
                 (stop_all w False
                    (emit (Log Info CancellingAllSubscribers) (app\<lparr>pendingShutdown := True\<rparr>)))"
  have subs: "subscribers ?app' = map (stop w False) (subscribers app)"
    by (simp add: emit_fields stop_all_fields)
  have tr: "trace ?app' =
              trace app @ [Log Info CancellingAllSubscribers]
              @ map (\<lambda>i. SubscriberStop i False) [0..<length (subscribers app)]
              @ [Log Info CheckingSubscribers]"
    by (simp add: emit_fields stop_all_fields)
  have rd: "(\<lambda>k. subscriberDeliveriesInFlight (after_sleeps w (subscribers ?app') 0 k))
              = reading w app"
    unfolding subs by (simp add: reading_def fun_eq_iff)
  have run: "gracefullyHandleSubscriberShutdown w app = poll w 0 ?app'"
    using assms by (simp add: gracefullyHandleSubscriberShutdown_def Let_def)
  have calls: "trace (gracefullyHandleSubscriberShutdown w app) =
           trace app
           @ [Log Info CancellingAllSubscribers]
           @ map (\<lambda>i. SubscriberStop i False) [0..<length (subscribers app)]
           @ [Log Info CheckingSubscribers]
           @ warnings (reading w app) [1..<Suc (length (nonzero_readings w app))]
           @ (if length (nonzero_readings w app) < 5
              then [Log Info NoDeliveriesInFlight, ConnectionClose]
              else [Log Warn MaximumRetriesExceeded, ConnectionClose])"
    unfolding run
    by (subst poll_trace) (simp_all add: rd tr nonzero_readings_def)
  have sums: "reading w app k =
             sum_list (map inFlightPushRequests
               (after_sleeps w (map (stop w False) (subscribers app)) 0 k))"
    by (simp add: reading_def deliveries_sum)
  from calls sums show ?thesis by (rule conjI)
qed

text \<open>
  In the draining world the two subscribers of \<open>pushing_app\<close> are read at 3, then 1, then
  0: two warnings and sleeps, then the close. The subscriber of \<open>slow_app\<close> is read at 4, 3,
  2, 1 and, at the fifth and last read, 0: the close is the one of a zero read. In the
  stuck world all five reads of \<open>pushing_app\<close> return 3, and the close is the forced one.
\<close>

theorem graceful_shutdown_trace_witness:
  "\<not> errorShutdown pushing_app
   \<and> trace (gracefullyHandleSubscriberShutdown draining pushing_app) =
       [Log Info CancellingAllSubscribers, SubscriberStop 0 False, SubscriberStop 1 False,
        Log Info CheckingSubscribers,
        Log Warn (DeliveriesInFlight 3 1), Sleep 1000,
        Log Warn (DeliveriesInFlight 1 2), Sleep 1000,
        Log Info NoDeliveriesInFlight, ConnectionClose]
   \<and> \<not> errorShutdown slow_app
   \<and> trace (gracefullyHandleSubscriberShutdown draining slow_app) =
       [Log Info CancellingAllSubscribers, SubscriberStop 0 False,
        Log Info CheckingSubscribers,
        Log Warn (DeliveriesInFlight 4 1), Sleep 1000,
        Log Warn (DeliveriesInFlight 3 2), Sleep 1000,
        Log Warn (DeliveriesInFlight 2 3), Sleep 1000,
        Log Warn (DeliveriesInFlight 1 4), Sleep 1000,
        Log Info NoDeliveriesInFlight, ConnectionClose]
   \<and> trace (gracefullyHandleSubscriberShutdown stuck pushing_app) =
       [Log Info CancellingAllSubscribers, SubscriberStop 0 False, SubscriberStop 1 False,
        Log Info CheckingSubscribers,
        Log Warn (DeliveriesInFlight 3 1), Sleep 1000,
        Log Warn (DeliveriesInFlight 3 2), Sleep 1000,
        Log Warn (DeliveriesInFlight 3 3), Sleep 1000,
        Log Warn (DeliveriesInFlight 3 4), Sleep 1000,
        Log Warn (DeliveriesInFlight 3 5), Sleep 1000,
        Log Warn MaximumRetriesExceeded, ConnectionClose]"
proof -
  have e: "\<not> errorShutdown pushing_app" "\<not> errorShutdown slow_app"
    by code_simp+
  have r1: "trace pushing_app
           @ [Log Info CancellingAllSubscribers]
           @ map (\<lambda>i. SubscriberStop i False) [0..<length (subscribers pushing_app)]
           @ [Log Info CheckingSubscribers]
           @ warnings (reading draining pushing_app)
               [1..<Suc (length (nonzero_readings draining pushing_app))]
           @ (if length (nonzero_readings draining pushing_app) < 5
              then [Log Info NoDeliveriesInFlight, ConnectionClose]
              else [Log Warn MaximumRetriesExceeded, ConnectionClose])
       = [Log Info CancellingAllSubscribers, SubscriberStop 0 False, SubscriberStop 1 False,
        Log Info CheckingSubscribers,
        Log Warn (DeliveriesInFlight 3 1), Sleep 1000,
        Log Warn (DeliveriesInFlight 1 2), Sleep 1000,
        Log Info NoDeliveriesInFlight, ConnectionClose]"
    by code_simp
  have r2: "trace slow_app
           @ [Log Info CancellingAllSubscribers]
           @ map (\<lambda>i. SubscriberStop i False) [0..<length (subscribers slow_app)]
           @ [Log Info CheckingSubscribers]
           @ warnings (reading draining slow_app)
               [1..<Suc (length (nonzero_readings draining slow_app))]
           @ (if length (nonzero_readings draining slow_app) < 5
              then [Log Info NoDeliveriesInFlight, ConnectionClose]
              else [Log Warn MaximumRetriesExceeded, ConnectionClose])
       = [Log Info CancellingAllSubscribers, SubscriberStop 0 False,
        Log Info CheckingSubscribers,
        Log Warn (DeliveriesInFlight 4 1), Sleep 1000,
        Log Warn (DeliveriesInFlight 3 2), Sleep 1000,
        Log Warn (DeliveriesInFlight 2 3), Sleep 1000,
        Log Warn (DeliveriesInFlight 1 4), Sleep 1000,
        Log Info NoDeliveriesInFlight, ConnectionClose]"
    by code_simp
  have r3: "trace pushing_app
           @ [Log Info CancellingAllSubscribers]
           @ map (\<lambda>i. SubscriberStop i False) [0..<length (subscribers pushing_app)]
           @ [Log Info CheckingSubscribers]
           @ warnings (reading stuck pushing_app)
               [1..<Suc (length (nonzero_readings stuck pushing_app))]
           @ (if length (nonzero_readings stuck pushing_app) < 5
              then [Log Info NoDeliveriesInFlight, ConnectionClose]
              else [Log Warn MaximumRetriesExceeded, ConnectionClose])
       = [Log Info CancellingAllSubscribers, SubscriberStop 0 False, SubscriberStop 1 False,
        Log Info CheckingSubscribers,
        Log Warn (DeliveriesInFlight 3 1), Sleep 1000,
        Log Warn (DeliveriesInFlight 3 2), Sleep 1000,
        Log Warn (DeliveriesInFlight 3 3), Sleep 1000,
        Log Warn (DeliveriesInFlight 3 4), Sleep 1000,
        Log Warn (DeliveriesInFlight 3 5), Sleep 1000,
        Log Warn MaximumRetriesExceeded, ConnectionClose]"
    by code_simp
  note t1 = graceful_shutdown_trace[OF e(1), of draining, THEN conjunct1]
  note t2 = graceful_shutdown_trace[OF e(2), of draining, THEN conjunct1]
  note t3 = graceful_shutdown_trace[OF e(1), of stuck, THEN conjunct1]
  show ?thesis
    unfolding t1 t2 t3 r1 r2 r3 using e by simp
qed

text \<open>
  Claim C2. For a publisher built with \<open>confirm\<close> set, the response of the publish route's
  handler is 201 exactly when the request passed the identity guard and the message
  parser and the broker confirmed positively; a 201 carries \<open>confirmed = true\<close>; and
  whenever the broker did not confirm positively (negative confirm or channel error) the
  status is outside 200..299, although the handler sets 201 before the publish settles.
\<close>

theorem confirm_publish_status:
  assumes "confirm config"
  shows "(status (reply (publish_handler x (buildPublisher config connected) g headers b)) = 201
            \<longleftrightarrow> verifyRequest g headers = None
                \<and> (\<exists>bytes. parseInbound x (messageParser (buildPublisher config connected))
                              (map_of headers ''content-type'') b = Inr bytes)
                \<and> broker x = PositiveConfirm)
       \<and> (status (reply (publish_handler x (buildPublisher config connected) g headers b)) = 201
            \<longrightarrow> (\<exists>n. payload (reply (publish_handler x (buildPublisher config connected) g headers b))
                        = PublishResult n True))
       \<and> (broker x \<noteq> PositiveConfirm
            \<longrightarrow> \<not> (200 \<le> status (reply (publish_handler x (buildPublisher config connected) g headers b))
                   \<and> status (reply (publish_handler x (buildPublisher config connected) g headers b)) < 300))"
proof -
  let ?p = "buildPublisher config connected"
  have ch: "channel ?p = ConfirmChannel"
    using assms by (rule buildPublisher_confirm)
  show ?thesis
  proof (cases "verifyRequest g headers")
    case (Some e)
    then show ?thesis
      by (simp add: publish_handler_def reply_def status_of_not_2xx)
  next
    case None
    show ?thesis
    proof (cases "parseInbound x (messageParser ?p) (map_of headers ''content-type'') b")
      case (Inl e)
      then show ?thesis
        using None
        by (simp add: publish_handler_def reply_def sendMessage_def Let_def status_of_not_2xx)
    next
      case (Inr bytes)
      then show ?thesis
        using None ch
        by (cases "broker x")
           (simp_all add: publish_handler_def reply_def sendMessage_def Let_def)
    qed
  qed
qed

text \<open>
  The binary publish of the tests is answered 201 with \<open>confirmed = true\<close> when the broker
  confirms, and 502 when it sends a negative confirm.
\<close>

theorem confirm_publish_status_witness:
  "confirm binaryq
   \<and> reply (publish_handler confirming (buildPublisher binaryq connected)
        \<lparr>guarded = buildPublisher binaryq connected, known = []\<rparr>
        (req_headers publish_request) (Buffer (req_payload publish_request)))
      = \<lparr>status = 201, payload = PublishResult 12 True\<rparr>
   \<and> broker confirming = PositiveConfirm
   \<and> status (reply (publish_handler (confirming\<lparr>broker := NegativeConfirm\<rparr>)
        (buildPublisher binaryq connected)
        \<lparr>guarded = buildPublisher binaryq connected, known = []\<rparr>
        (req_headers publish_request) (Buffer (req_payload publish_request)))) = 502"
proof -
  have c: "confirm binaryq" by (simp add: binaryq_def)
  have ev: "reply (publish_handler confirming (buildPublisher binaryq connected)
        \<lparr>guarded = buildPublisher binaryq connected, known = []\<rparr>
        (req_headers publish_request) (Buffer (req_payload publish_request)))
      = \<lparr>status = 201, payload = PublishResult 12 True\<rparr>"
    by code_simp
  have ev2: "status (reply (publish_handler (confirming\<lparr>broker := NegativeConfirm\<rparr>)
        (buildPublisher binaryq connected)
        \<lparr>guarded = buildPublisher binaryq connected, known = []\<rparr>
        (req_headers publish_request) (Buffer (req_payload publish_request)))) = 502"
    by code_simp
  have b: "broker confirming = PositiveConfirm" by (simp add: confirming_def)
  show ?thesis
    using confirm_publish_status[OF c, of confirming
             "\<lparr>guarded = buildPublisher binaryq connected, known = []\<rparr>"
             "req_headers publish_request" "Buffer (req_payload publish_request)"]
          c ev ev2 b
    by simp
qed

text \<open>
  Claim C3, as amended. The graceful shutdown sequence drains subscriber pushes only:
  \<open>gracefullyHandleSubscriberShutdown\<close> neither reads nor changes the publishers, so it
  makes the same calls and closes the AMQP connection at the same point whatever the
  publishers' \<open>messagesInFlight\<close>; \<open>totalMessagesInFlight\<close> is the sum of these counters,
  and the shutdown sequence does not consult it.
\<close>

theorem shutdown_ignores_publishers:
  "gracefullyHandleSubscriberShutdown w (app\<lparr>publishers := ps\<rparr>)
     = (gracefullyHandleSubscriberShutdown w app)\<lparr>publishers := ps\<rparr>
   \<and> totalMessagesInFlight ps = sum_list (map messagesInFlight ps)"
  by (simp add: shutdown_publishers total_sum)

text \<open>
  Claim C3, as stated, fails: with one publish in flight and no subscriber, the graceful
  shutdown closes the connection after its first read, without a single sleep, and the
  publish is still in flight afterwards.
\<close>

theorem shutdown_closes_with_publish_in_flight:
  "totalMessagesInFlight (publishers publishing_app) = 1
   \<and> \<not> errorShutdown publishing_app
   \<and> trace (gracefullyHandleSubscriberShutdown stuck publishing_app)
       = [Log Info CancellingAllSubscribers, Log Info CheckingSubscribers,
          Log Info NoDeliveriesInFlight, ConnectionClose]
   \<and> totalMessagesInFlight (publishers (gracefullyHandleSubscriberShutdown stuck publishing_app)) = 1"
  by code_simp




text \<open>
  Claim C5. When the connection or a channel closes while neither flag is set, the handler
  sets \<open>errorShutdown\<close>, logs fatal, closes the connection if it was a channel that
  closed, and closes the application, whose close hook calls \<open>stop(true)\<close> on every
  subscriber; when \<open>pendingShutdown\<close> is set, the handler logs one line and changes
  nothing else.
\<close>

theorem unexpected_close_handlers:
  "(\<not> pendingShutdown app \<and> \<not> errorShutdown app \<longrightarrow>
      handleConnectionClose w app =
        app\<lparr>errorShutdown := True, pendingShutdown := True,
            subscribers := map (stop w True) (subscribers app),
            trace := trace app @ [Log Fatal ConnectionClosedUnexpectedly, AppClose]
                     @ map (\<lambda>i. SubscriberStop i True) [0..<length (subscribers app)]\<rparr>
      \<and> handleChannelClose w app c =
        app\<lparr>errorShutdown := True, pendingShutdown := True,
            subscribers := map (stop w True) (subscribers app),
            trace := trace app @ [Log Fatal ChannelClosedUnexpectedly, ConnectionClose, AppClose]
                     @ map (\<lambda>i. SubscriberStop i True) [0..<length (subscribers app)]\<rparr>)
   \<and> (pendingShutdown app \<longrightarrow>
      handleConnectionClose w app = app\<lparr>trace := trace app @ [Log Info ConnectionWasClosed]\<rparr>
      \<and> handleChannelClose w app c = app\<lparr>trace := trace app @ [Log Info (ChannelWasClosed c)]\<rparr>)"
  by (simp add: handleConnectionClose_def handleChannelClose_def close_def onClose_def
        shutdown_hard emit_def)

theorem unexpected_close_handlers_witness:
  "\<not> pendingShutdown pushing_app \<and> \<not> errorShutdown pushing_app
   \<and> errorShutdown (handleConnectionClose draining pushing_app)
   \<and> trace (handleConnectionClose draining pushing_app)
       = [Log Fatal ConnectionClosedUnexpectedly, AppClose,
          SubscriberStop 0 True, SubscriberStop 1 True]
   \<and> errorShutdown (handleChannelClose draining pushing_app True)
   \<and> trace (handleChannelClose draining pushing_app True)
       = [Log Fatal ChannelClosedUnexpectedly, ConnectionClose, AppClose,
          SubscriberStop 0 True, SubscriberStop 1 True]
   \<and> pendingShutdown (gracefulShutdown pushing_app)
   \<and> handleConnectionClose draining (gracefulShutdown pushing_app)
       = (gracefulShutdown pushing_app)
           \<lparr>trace := [Log Info StartingGracefulShutdown, Log Info ConnectionWasClosed]\<rparr>
   \<and> handleChannelClose draining (gracefulShutdown pushing_app) True
       = (gracefulShutdown pushing_app)
           \<lparr>trace := [Log Info StartingGracefulShutdown, Log Info (ChannelWasClosed True)]\<rparr>"
proof -
  have f: "\<not> pendingShutdown pushing_app" "\<not> errorShutdown pushing_app"
    by code_simp+
  have p: "pendingShutdown (gracefulShutdown pushing_app)"
    by (simp add: gracefulShutdown_def)
  have t: "trace pushing_app = []" "length (subscribers pushing_app) = 2"
          "trace (gracefulShutdown pushing_app) = [Log Info StartingGracefulShutdown]"
    by code_simp+
  have u: "[0..<2] = [0, Suc 0]"
    by code_simp
  show ?thesis
    using unexpected_close_handlers[of pushing_app draining True]
          unexpected_close_handlers[of "gracefulShutdown pushing_app" draining True]
          f p t u
    by simp
qed

text \<open>
  Claim C6. With \<open>errorShutdown\<close> already set, \<open>gracefullyHandleSubscriberShutdown\<close> sets
  \<open>pendingShutdown\<close>, calls \<open>stop(true)\<close> on every subscriber, and does nothing else: no
  read of the in-flight sum, no log line, no sleep, no close of the connection.
\<close>

theorem error_shutdown_stops_hard:
  "errorShutdown app \<Longrightarrow>
   gracefullyHandleSubscriberShutdown w app =
     app\<lparr>pendingShutdown := True,
         subscribers := map (stop w True) (subscribers app),
         trace := trace app @ map (\<lambda>i. SubscriberStop i True) [0..<length (subscribers app)]\<rparr>"
  by (rule shutdown_hard)

theorem error_shutdown_stops_hard_witness:
  "errorShutdown doomed_app
   \<and> trace (gracefullyHandleSubscriberShutdown draining doomed_app)
       = [SubscriberStop 0 True, SubscriberStop 1 True]
   \<and> subscribers (gracefullyHandleSubscriberShutdown draining doomed_app)
       = [\<lparr>inFlightPushRequests = 0\<rparr>, \<lparr>inFlightPushRequests = 0\<rparr>]
   \<and> pendingShutdown (gracefullyHandleSubscriberShutdown draining doomed_app)"
proof -
  have e: "errorShutdown doomed_app" by code_simp
  have t: "trace doomed_app @ map (\<lambda>i. SubscriberStop i True) [0..<length (subscribers doomed_app)]
             = [SubscriberStop 0 True, SubscriberStop 1 True]"
    by code_simp
  have s: "map (stop draining True) (subscribers doomed_app)
             = [\<lparr>inFlightPushRequests = 0\<rparr>, \<lparr>inFlightPushRequests = 0\<rparr>]"
    by code_simp
  show ?thesis
    using error_shutdown_stops_hard[OF e, of draining] e t s by simp
qed

text \<open>
  Claim C7. \<open>buildApp\<close> starts both flags at false; nothing that can happen to the
  application (a signal, a close, a connection or channel close event, in any number and
  order) clears a flag that is set; and once \<open>errorShutdown\<close> is set, a connection or
  channel close event changes no state and starts no other close: it leaves the
  application as it is, but for the one log line when \<open>pendingShutdown\<close> is set as well.
\<close>

theorem flags_monotonic:
  "\<not> pendingShutdown (buildApp builtin a subs yamlConfig)
   \<and> \<not> errorShutdown (buildApp builtin a subs yamlConfig)
   \<and> (pendingShutdown app \<longrightarrow> pendingShutdown (run w app os))
   \<and> (errorShutdown app \<longrightarrow> errorShutdown (run w app os))
   \<and> (errorShutdown app \<longrightarrow>
        handleConnectionClose w app
          = (if pendingShutdown app
             then app\<lparr>trace := trace app @ [Log Info ConnectionWasClosed]\<rparr> else app)
        \<and> handleChannelClose w app c
          = (if pendingShutdown app
             then app\<lparr>trace := trace app @ [Log Info (ChannelWasClosed c)]\<rparr> else app))"
  by (simp add: buildApp_fields run_flags handleConnectionClose_def handleChannelClose_def
        emit_def)

theorem flags_monotonic_witness:
  "pendingShutdown failed_app \<and> errorShutdown failed_app
   \<and> pendingShutdown (run draining failed_app [ConnectionClosed, ShutdownSignal, ChannelClosed False])
   \<and> errorShutdown (run draining failed_app [ConnectionClosed, ShutdownSignal, ChannelClosed False])
   \<and> handleConnectionClose draining failed_app
       = failed_app\<lparr>trace := trace failed_app @ [Log Info ConnectionWasClosed]\<rparr>
   \<and> handleChannelClose draining failed_app False
       = failed_app\<lparr>trace := trace failed_app @ [Log Info (ChannelWasClosed False)]\<rparr>
   \<and> errorShutdown doomed_app \<and> \<not> pendingShutdown doomed_app
   \<and> handleConnectionClose draining doomed_app = doomed_app
   \<and> handleChannelClose draining doomed_app False = doomed_app"
proof -
  have f: "pendingShutdown failed_app" "errorShutdown failed_app"
          "errorShutdown doomed_app" "\<not> pendingShutdown doomed_app"
    by code_simp+
  show ?thesis
    using flags_monotonic[of "[]" connected "[]" test_yamlConfig failed_app draining
                "[ConnectionClosed, ShutdownSignal, ChannelClosed False]" False]
          flags_monotonic[of "[]" connected "[]" test_yamlConfig doomed_app draining "[]" False]
          f
    by simp
qed

text \<open>
  Claim C8. \<open>buildPublisher\<close> binds the publisher to the confirm channel when
  \<open>config.confirm\<close> is set and to the regular channel otherwise (so, the two channels
  being distinct, to the confirm channel exactly when it is set), and gives it a
  \<open>BinaryMessageParser\<close> exactly when \<open>config.contentType\<close> is \<open>BINARY\<close>, otherwise a
  \<open>JSONMessageParser\<close> constructed with \<open>config.schema\<close>; the parser is a field of the
  publisher, fixed by the configuration alone.
\<close>

theorem buildPublisher_dispatch:
  "channel (buildPublisher config a)
     = (if confirm config then amqp_confirmChannel a else amqp_channel a)
   \<and> (amqp_confirmChannel a \<noteq> amqp_channel a \<longrightarrow>
        (channel (buildPublisher config a) = amqp_confirmChannel a \<longleftrightarrow> confirm config))
   \<and> (messageParser (buildPublisher config a) = BinaryMessageParser
        \<longleftrightarrow> contentType config = BINARY)
   \<and> (contentType config \<noteq> BINARY \<longrightarrow>
        messageParser (buildPublisher config a) = JSONMessageParser (schema config))
   \<and> pub_queueName (buildPublisher config a) = queueName config
   \<and> pub_identities (buildPublisher config a) = identities config"
  by (simp add: buildPublisher_def new_Publisher_def Let_def)

theorem buildPublisher_dispatch_witness:
  "amqp_confirmChannel connected \<noteq> amqp_channel connected
   \<and> contentType jsonq \<noteq> BINARY \<and> confirm jsonq
   \<and> channel (buildPublisher jsonq connected) = ConfirmChannel
   \<and> messageParser (buildPublisher jsonq connected) = JSONMessageParser (Some ''{}'')
   \<and> \<not> confirm nonconfirm
   \<and> channel (buildPublisher nonconfirm connected) = RegularChannel"
proof -
  have f: "amqp_confirmChannel connected \<noteq> amqp_channel connected"
          "contentType jsonq \<noteq> BINARY" "confirm jsonq" "\<not> confirm nonconfirm"
          "schema jsonq = Some ''{}''"
          "amqp_confirmChannel connected = ConfirmChannel"
          "amqp_channel connected = RegularChannel"
    by (simp_all add: connected_def jsonq_def nonconfirm_def)
  show ?thesis
    using buildPublisher_dispatch[of jsonq connected]
          buildPublisher_dispatch[of nonconfirm connected] f
    by simp
qed

text \<open>
  Claim C9. \<open>gracefullyHandleSubscriberShutdown\<close> sets \<open>pendingShutdown\<close> before its first
  suspension, on the \<open>errorShutdown\<close> path as on the graceful one, and leaves it set.
  Whatever connection and channel close events arrive while it is suspended (after the
  stops, in any of the sleeps, during the close of the connection), running their
  listeners does exactly what logging one expected-close line per event does:
  \<open>errorShutdown\<close> keeps its value and \<^verbatim>\<open>app.close()\<close> is not called once more. With no
  event arriving the function is the one of the other claims; and after it has returned,
  as in any state with \<open>pendingShutdown\<close> set, a close event is logged as expected and
  nothing else.
\<close>

theorem close_during_shutdown_is_expected:
  "gracefullyHandleSubscriberShutdown_awaiting (deliver w' arrivals) w app
     = gracefullyHandleSubscriberShutdown_awaiting (note_expected arrivals) w app
   \<and> pendingShutdown (gracefullyHandleSubscriberShutdown_awaiting (deliver w' arrivals) w app)
   \<and> errorShutdown (gracefullyHandleSubscriberShutdown_awaiting (deliver w' arrivals) w app)
       = errorShutdown app
   \<and> count_list (trace (gracefullyHandleSubscriberShutdown_awaiting (deliver w' arrivals) w app))
        AppClose = count_list (trace app) AppClose
   \<and> gracefullyHandleSubscriberShutdown_awaiting (\<lambda>s a. a) w app
       = gracefullyHandleSubscriberShutdown w app
   \<and> (pendingShutdown s \<longrightarrow> on_close_event w' s e = emit (expected_close e) s)"
  by (simp add: shutdown_awaiting_expected shutdown_awaiting_noted shutdown_awaiting_quiet
        on_close_event_expected)

text \<open>
  A graceful shutdown of \<open>pushing_app\<close> during which the confirm channel, the regular
  channel and the connection close: three info lines, among the calls of the coordinator.
\<close>

theorem close_during_shutdown_is_expected_witness:
  "trace (gracefullyHandleSubscriberShutdown_awaiting (deliver stuck closing_down) draining pushing_app)
     = [Log Info CancellingAllSubscribers, SubscriberStop 0 False, SubscriberStop 1 False,
        Log Info (ChannelWasClosed True),
        Log Info CheckingSubscribers,
        Log Warn (DeliveriesInFlight 3 1), Sleep 1000,
        Log Info (ChannelWasClosed False),
        Log Warn (DeliveriesInFlight 1 2), Sleep 1000,
        Log Info NoDeliveriesInFlight, ConnectionClose,
        Log Info ConnectionWasClosed]
   \<and> \<not> errorShutdown (gracefullyHandleSubscriberShutdown_awaiting (deliver stuck closing_down)
          draining pushing_app)
   \<and> pendingShutdown (gracefulShutdown pushing_app)
   \<and> on_close_event stuck (gracefulShutdown pushing_app) ConnectionCloseEvent
       = emit (Log Info ConnectionWasClosed) (gracefulShutdown pushing_app)"
proof -
  have t: "trace (gracefullyHandleSubscriberShutdown_awaiting (note_expected closing_down)
                    draining pushing_app)
     = [Log Info CancellingAllSubscribers, SubscriberStop 0 False, SubscriberStop 1 False,
        Log Info (ChannelWasClosed True),
        Log Info CheckingSubscribers,
        Log Warn (DeliveriesInFlight 3 1), Sleep 1000,
        Log Info (ChannelWasClosed False),
        Log Warn (DeliveriesInFlight 1 2), Sleep 1000,
        Log Info NoDeliveriesInFlight, ConnectionClose,
        Log Info ConnectionWasClosed]"
    by code_simp
  have e: "\<not> errorShutdown pushing_app" by code_simp
  have p: "pendingShutdown (gracefulShutdown pushing_app)"
    by (simp add: gracefulShutdown_def)
  show ?thesis
    using close_during_shutdown_is_expected[of stuck closing_down draining pushing_app "gracefulShutdown pushing_app"
                ConnectionCloseEvent] t e p
    by (simp add: shutdown_awaiting_noted)
qed

text \<open>
  Claim C10, as amended. \<open>buildApp\<close> removes the built-in content type parsers and
  installs one catch-all parser that returns the payload as it is, so the HTTP layer never
  refuses a request for its content type (no 415, whatever the header and however the
  framework matches content types). A \<^verbatim>\<open>POST\<close> whose payload is within the body limit of
  1 MiB reaches the route with the payload as received, as a \<open>Buffer\<close>, with two exceptions:
  a request with neither content type nor body is not parsed and reaches the route with a
  \<^verbatim>\<open>null\<close> body, and a payload over the limit is answered 413 before any route.
\<close>

theorem body_after_content_type_parser:
  "parseBody x (buildApp builtin a subs yamlConfig) req
     = (if no_body req then Inr Null
        else if bodyLimit < int (length (req_payload req)) then Inl 413
        else Inr (Buffer (req_payload req)))
   \<and> parseBody x (buildApp builtin a subs yamlConfig) req \<noteq> Inl 415"
  by (simp add: parseBody_def buildApp_fields getParser_def)

theorem body_after_content_type_parser_witness:
  "parseBody confirming pushing_app publish_request = Inr (Buffer ''some payload'')
   \<and> parseBody confirming pushing_app bodyless_request = Inr Null
   \<and> parseBody confirming pushing_app oversized_request = Inl 413"
proof -
  have f: "\<not> no_body publish_request" "no_body bodyless_request" "\<not> no_body oversized_request"
          "req_payload publish_request = ''some payload''"
          "\<not> bodyLimit < int (length (req_payload publish_request))"
          "bodyLimit < int (length (req_payload oversized_request))"
    by (simp_all add: no_body_def publish_request_def bodyless_request_def oversized_request_def
          bodyLimit_def)
  show ?thesis
    using body_after_content_type_parser[of confirming "[]" connected
                 "[\<lparr>inFlightPushRequests = 2\<rparr>, \<lparr>inFlightPushRequests = 1\<rparr>]"
                 test_yamlConfig publish_request]
          body_after_content_type_parser[of confirming "[]" connected
                 "[\<lparr>inFlightPushRequests = 2\<rparr>, \<lparr>inFlightPushRequests = 1\<rparr>]"
                 test_yamlConfig bodyless_request]
          body_after_content_type_parser[of confirming "[]" connected
                 "[\<lparr>inFlightPushRequests = 2\<rparr>, \<lparr>inFlightPushRequests = 1\<rparr>]"
                 test_yamlConfig oversized_request]
          f
    by (simp add: pushing_app_def)
qed

text \<open>
  Claim C10, as stated, fails for a \<^verbatim>\<open>POST\<close> with neither content type nor body: the
  route does not get a \<open>Buffer\<close> of the (empty) payload but \<^verbatim>\<open>null\<close>.
\<close>

theorem bodyless_post_reaches_handler_null:
  "parseBody confirming pushing_app bodyless_request = Inr Null
   \<and> parseBody confirming pushing_app bodyless_request
       \<noteq> Inr (Buffer (req_payload bodyless_request))"
  by code_simp

end
